theory Spec2Isabelle
  imports Main
begin

section \<open>School administration backend: data model\<close>

text \<open>
  The route handlers of \<^verbatim>\<open>routers/*.py\<close> are embedded as functions over an explicit
  store. Each handler takes the store (the handler's \<^verbatim>\<open>db\<close> session), the request
  data and the authenticated caller (\<^verbatim>\<open>current_user\<close>), and returns either the error it
  raises or its response, together with the new store when it commits.

  Conventions of the embedding:
  \<^item> Every \<^verbatim>\<open>raise HTTPException(status_code, detail)\<close> is the value
    \<open>Inl (HTTPException status_code detail)\<close>. A handler that raises has not committed,
    so an error carries no store.
  \<^item> Rows and request bodies carry the attributes that \<^verbatim>\<open>schemas.py\<close> and \<^verbatim>\<open>models.py\<close>
    declare. Where a handler reads an attribute that the class does not declare, the
    read raises and the handler's value is \<open>Inl AttributeError\<close> from that point on.
    Field names are prefixed by table (\<open>u_\<close>, \<open>a_\<close>, \<open>s_\<close>, \<open>m_\<close>, \<open>r_\<close>), since two
    tables share column names. Columns that only the mapper fills with a timestamp
    default (\<^verbatim>\<open>created_at\<close>, \<^verbatim>\<open>submitted_at\<close>, \<^verbatim>\<open>sent_at\<close>, \<^verbatim>\<open>requested_at\<close>) are left
    out; no handler that runs to its end branches on them.
  \<^item> \<^verbatim>\<open>schemas.py\<close> declares the username and the email of a user unique, and the
    \<^verbatim>\<open>assignment_id\<close> of a submission not null. A commit that breaks either raises and
    stores nothing: the handler's value is \<open>Inl IntegrityError\<close>.
  \<^item> Roles and request statuses are strings, as in the source.
  \<^item> \<^verbatim>\<open>database.py\<close> and \<^verbatim>\<open>auth_utils.py\<close> are not part of the source tree. The session
    operations are modelled as list operations on tables, and the credential functions
    are parameters of the handlers that call them.
\<close>

datatype error = HTTPException nat string | AttributeError | IntegrityError

record user =
  u_id :: int
  u_username :: string
  u_email :: string
  u_password_hash :: string
  u_name :: string
  u_role :: string

record assignment =
  a_id :: int
  a_title :: string
  a_description :: "string option"
  a_subject :: string
  a_class_name :: string
  a_due_date :: int
  a_created_by_id :: int

record assignment_submission =
  s_id :: int
  s_assignment_id :: int
  s_student_id :: int
  s_content :: string
  s_grade :: "string option"
  s_feedback :: "string option"

record message =
  m_id :: int
  m_sender_id :: int
  m_receiver_id :: int
  m_subject :: string
  m_content :: string
  m_is_read :: bool

record registration_request =
  r_id :: int
  r_username :: string
  r_email :: string
  r_name :: string
  r_role :: string
  r_status :: string
  r_processed_at :: "int option"

text \<open>The request bodies of \<^verbatim>\<open>models.py\<close>.\<close>

record assignment_create =
  ac_title :: string
  ac_description :: "string option"
  ac_subject :: string
  ac_class_name :: string
  ac_due_date :: int

record assignment_submission_create =
  sc_content :: string
  sc_assignment_id :: int

record assignment_submission_grade =
  g_grade :: string
  g_feedback :: "string option"

record message_create =
  mc_subject :: string
  mc_content :: string
  mc_receiver_id :: int

record registration_request_create =
  rc_username :: string
  rc_email :: string
  rc_name :: string
  rc_role :: string

record user_login =
  l_username :: string
  l_password :: string

record store =
  users :: "user list"
  assignments :: "assignment list"
  assignment_submissions :: "assignment_submission list"
  messages :: "message list"
  registration_requests :: "registration_request list"

definition empty_store :: store where
  "empty_store = \<lparr>users = [], assignments = [], assignment_submissions = [],
     messages = [], registration_requests = []\<rparr>"

subsection \<open>The session\<close>

text \<open>
  \<^verbatim>\<open>query.filter(P).first()\<close> is \<^term>\<open>find P rows\<close> and \<^verbatim>\<open>query.filter(P).all()\<close> is
  \<^term>\<open>filter P rows\<close>; \<^verbatim>\<open>db.add(row); db.commit()\<close> appends the row with a fresh primary
  key.
\<close>

definition next_id :: "int list \<Rightarrow> int" where
  \<comment> \<open>Modelled from the spec: \<^verbatim>\<open>database.py\<close> (engine and session) is missing; the store
     gives every new row an id that is unique and stable, here one above the largest
     id of the table.\<close>
  "next_id ids = fold max ids 0 + 1"

fun update_first :: "('a \<Rightarrow> bool) \<Rightarrow> ('a \<Rightarrow> 'a) \<Rightarrow> 'a list \<Rightarrow> 'a list" where
  \<comment> \<open>Modelled from the spec: assigning to attributes of the row that \<^verbatim>\<open>first()\<close>
     returned, then \<^verbatim>\<open>db.commit()\<close>, rewrites that row in place.\<close>
  "update_first P f [] = []"
| "update_first P f (x # xs) = (if P x then f x # xs else x # update_first P f xs)"

fun delete_first :: "('a \<Rightarrow> bool) \<Rightarrow> 'a list \<Rightarrow> 'a list" where
  \<comment> \<open>Modelled from the spec: \<^verbatim>\<open>db.delete(row); db.commit()\<close> removes the row that
     \<^verbatim>\<open>first()\<close> returned.\<close>
  "delete_first P [] = []"
| "delete_first P (x # xs) = (if P x then xs else x # delete_first P xs)"

definition user_taken :: "store \<Rightarrow> string \<Rightarrow> string \<Rightarrow> bool" where
  \<comment> \<open>Modelled from the spec: \<^verbatim>\<open>database.py\<close> is missing; the store refuses a user whose
     username or email is already present (both columns are declared unique), so a
     commit that adds such a user raises.\<close>
  "user_taken db username email =
     (\<exists>u\<in>set (users db). u_username u = username \<or> u_email u = email)"

definition truthy :: "string option \<Rightarrow> bool" where
  \<comment> \<open>Python's truth value of an \<^verbatim>\<open>Optional[str]\<close>: neither \<^verbatim>\<open>None\<close> nor empty.\<close>
  "truthy s = (case s of None \<Rightarrow> False | Some v \<Rightarrow> v \<noteq> [])"

subsection \<open>Decimal rendering and the username loop\<close>

fun str_nat :: "nat \<Rightarrow> string" where
  \<comment> \<open>Python's \<^verbatim>\<open>str\<close> of a non-negative integer, as the f-string renders the counter.\<close>
  "str_nat n =
     (if n < 10 then [char_of (48 + n)]
      else str_nat (n div 10) @ [char_of (48 + n mod 10)])"

declare str_nat.simps [simp del]

lemma str_nat_small: "n < 10 \<Longrightarrow> str_nat n = [char_of (48 + n)]"
  by (subst str_nat.simps) simp

lemma str_nat_big:
  "\<not> n < 10 \<Longrightarrow> str_nat n = str_nat (n div 10) @ [char_of (48 + n mod 10)]"
  by (subst str_nat.simps) simp

lemma str_nat_nonempty: "str_nat n \<noteq> []"
  by (subst str_nat.simps) simp

lemma digit_char_inj:
  assumes "a < 10" "b < 10" "(char_of (48 + a) :: char) = char_of (48 + b)"
  shows "a = (b::nat)"
proof -
  have "of_char (char_of (48 + a) :: char) = (of_char (char_of (48 + b) :: char) :: nat)"
    using assms(3) by simp
  then have "(48 + a) mod 256 = (48 + b) mod 256"
    by (simp only: of_char_of)
  with assms(1,2) show ?thesis by simp
qed

lemma str_nat_inj: "str_nat n = str_nat m \<Longrightarrow> n = m"
proof (induction n arbitrary: m rule: str_nat.induct)
  case (1 n)
  show ?case
  proof (cases "n < 10")
    case small_n: True
    show ?thesis
    proof (cases "m < 10")
      case True
      with small_n "1.prems" show ?thesis
        by (auto simp: str_nat_small dest: digit_char_inj)
    next
      case False
      then have "str_nat m = str_nat (m div 10) @ [char_of (48 + m mod 10)]"
        by (subst str_nat.simps) simp
      then have "length (str_nat m) \<ge> 2"
        using str_nat_nonempty [of "m div 10"]
        by (cases "str_nat (m div 10)") auto
      moreover have "length (str_nat n) = 1"
        using small_n by (simp add: str_nat_small)
      ultimately show ?thesis using "1.prems" by simp
    qed
  next
    case big_n: False
    then have n_eq: "str_nat n = str_nat (n div 10) @ [char_of (48 + n mod 10)]"
      by (subst str_nat.simps) simp
    show ?thesis
    proof (cases "m < 10")
      case True
      have "length (str_nat n) \<ge> 2"
        using n_eq str_nat_nonempty [of "n div 10"]
        by (cases "str_nat (n div 10)") auto
      moreover have "length (str_nat m) = 1"
        using True by (simp add: str_nat_small)
      ultimately show ?thesis using "1.prems" by simp
    next
      case False
      then have m_eq: "str_nat m = str_nat (m div 10) @ [char_of (48 + m mod 10)]"
        by (subst str_nat.simps) simp
      from n_eq m_eq "1.prems"
      have front: "str_nat (n div 10) = str_nat (m div 10)"
        and last_eq: "(char_of (48 + n mod 10) :: char) = char_of (48 + m mod 10)"
        by simp_all
      from "1.IH" [OF big_n front] have "n div 10 = m div 10" .
      moreover from last_eq have "n mod 10 = m mod 10"
        by (intro digit_char_inj) simp_all
      ultimately show ?thesis
        by (metis div_mult_mod_eq)
    qed
  qed
qed

definition usernames :: "user list \<Rightarrow> string set" where
  "usernames us = u_username ` set us"

lemma find_username_iff:
  "(find (\<lambda>u. u_username u = n) us \<noteq> None) = (n \<in> usernames us)"
  by (auto simp: usernames_def find_None_iff)

lemma finite_suffix_candidates:
  "finite {k. c \<le> k \<and> base @ str_nat k \<in> usernames us}"
proof -
  have "inj (\<lambda>k. base @ str_nat k)"
    by (rule injI) (simp add: str_nat_inj)
  moreover have "finite (usernames us)"
    by (simp add: usernames_def)
  ultimately have "finite ((\<lambda>k. base @ str_nat k) -` usernames us)"
    by (rule finite_vimageI [rotated])
  then show ?thesis
    by (rule rev_finite_subset) auto
qed

function unique_username :: "user list \<Rightarrow> string \<Rightarrow> string \<Rightarrow> nat \<Rightarrow> string" where
  \<comment> \<open>The \<^verbatim>\<open>while\<close> loop of \<^verbatim>\<open>approve_registration_request\<close>: the state is
     \<^verbatim>\<open>username\<close> and \<^verbatim>\<open>counter\<close>; \<^verbatim>\<open>original_username\<close> is fixed.\<close>
  "unique_username us original_username username counter =
     (if find (\<lambda>u. u_username u = username) us \<noteq> None
      then unique_username us original_username
             (original_username @ str_nat counter) (counter + 1)
      else username)"
  by pat_completeness auto
termination
proof (relation "measure (\<lambda>(us, base, username, counter).
         2 * card {k. counter \<le> k \<and> base @ str_nat k \<in> usernames us}
         + (if username \<in> usernames us then 1 else 0))", goal_cases)
  case 1
  show ?case by simp
next
  case (2 us base username counter)
  then have taken: "username \<in> usernames us"
    by (simp only: find_username_iff)
  let ?S = "\<lambda>c. {k. c \<le> k \<and> base @ str_nat k \<in> usernames us}"
  show ?case
  proof (cases "base @ str_nat counter \<in> usernames us")
    case True
    have "counter \<in> ?S counter" "counter \<notin> ?S (counter + 1)"
      using True by simp_all
    moreover have "?S (counter + 1) \<subseteq> ?S counter"
      by auto
    ultimately have "?S (counter + 1) \<subset> ?S counter"
      by blast
    then have "card (?S (counter + 1)) < card (?S counter)"
      by (intro psubset_card_mono finite_suffix_candidates)
    with taken True show ?thesis by simp
  next
    case False
    have "?S (counter + 1) \<subseteq> ?S counter"
      by auto
    then have "card (?S (counter + 1)) \<le> card (?S counter)"
      by (intro card_mono finite_suffix_candidates)
    with taken False show ?thesis by simp
  qed
qed

declare unique_username.simps [simp del]

section \<open>Handlers\<close>

subsection \<open>\<^verbatim>\<open>routers/auth.py\<close>\<close>

definition login ::
  "(string \<Rightarrow> string \<Rightarrow> bool) \<Rightarrow> (string \<Rightarrow> string) \<Rightarrow> store \<Rightarrow> user_login
     \<Rightarrow> error + (string \<times> string)" where
  \<comment> \<open>\<^verbatim>\<open>verify_password\<close> and \<^verbatim>\<open>create_access_token\<close> (of the missing
     \<^verbatim>\<open>auth_utils.py\<close>) are parameters. The response is the pair
     (access token, token type).\<close>
  "login verify_password create_access_token db user_credentials =
     (case find (\<lambda>u. u_username u = l_username user_credentials) (users db) of
        None \<Rightarrow> Inl (HTTPException 401 ''Invalid credentials'')
      | Some user \<Rightarrow>
          if \<not> verify_password (l_password user_credentials) (u_password_hash user)
          then Inl (HTTPException 401 ''Invalid credentials'')
          else Inr (create_access_token (u_username user), ''bearer''))"

definition get_all_users :: "store \<Rightarrow> user \<Rightarrow> error + user list" where
  "get_all_users db current_user =
     (if u_role current_user \<noteq> ''admin''
      then Inl (HTTPException 403 ''Only admins can view all users'')
      else Inr (users db))"

definition get_current_user_info :: "user \<Rightarrow> user" where
  "get_current_user_info current_user = current_user"

definition new_request :: "store \<Rightarrow> registration_request_create \<Rightarrow> registration_request" where
  \<comment> \<open>\<^verbatim>\<open>RegistrationRequest(**request.dict())\<close> after \<^verbatim>\<open>db.add\<close>, \<^verbatim>\<open>db.commit\<close> and
     \<^verbatim>\<open>db.refresh\<close>: the column default of \<^verbatim>\<open>status\<close> is \<^verbatim>\<open>"pending"\<close>.\<close>
  "new_request db request =
     \<lparr>r_id = next_id (map r_id (registration_requests db)),
      r_username = rc_username request, r_email = rc_email request,
      r_name = rc_name request, r_role = rc_role request,
      r_status = ''pending'', r_processed_at = None\<rparr>"

definition auth_create_registration_request ::
  "store \<Rightarrow> registration_request_create \<Rightarrow> error + (registration_request \<times> store)" where
  "auth_create_registration_request db request =
     (if find (\<lambda>u. u_username u = rc_username request \<or> u_email u = rc_email request)
           (users db) \<noteq> None
      then Inl (HTTPException 400 ''Username or email already exists'')
      else if find (\<lambda>r. (r_username r = rc_username request \<or> r_email r = rc_email request)
                         \<and> r_status r = ''pending'')
                (registration_requests db) \<noteq> None
      then Inl (HTTPException 400 ''Registration request already pending'')
      else Inr (new_request db request,
                db\<lparr>registration_requests := registration_requests db @ [new_request db request]\<rparr>))"

definition auth_get_registration_requests ::
  "store \<Rightarrow> user \<Rightarrow> error + registration_request list" where
  "auth_get_registration_requests db current_user =
     (if u_role current_user \<noteq> ''admin''
      then Inl (HTTPException 403 ''Only admins can view registration requests'')
      else Inr (registration_requests db))"

definition process_registration_request ::
  "(string \<Rightarrow> string) \<Rightarrow> int \<Rightarrow> store \<Rightarrow> int \<Rightarrow> string \<Rightarrow> user
     \<Rightarrow> error + (registration_request \<times> store)" where
  \<comment> \<open>\<^verbatim>\<open>get_password_hash\<close> is a parameter; \<open>now\<close> is \<^verbatim>\<open>datetime.utcnow()\<close>;
     \<open>status\<close> is \<^verbatim>\<open>request_update.status\<close>, any string. On approval the commit adds a
     user with the request's own username and email, and raises when either is taken.\<close>
  "process_registration_request get_password_hash now db request_id status current_user =
     (if u_role current_user \<noteq> ''admin''
      then Inl (HTTPException 403 ''Only admins can process registration requests'')
      else case find (\<lambda>r. r_id r = request_id) (registration_requests db) of
        None \<Rightarrow> Inl (HTTPException 404 ''Registration request not found'')
      | Some db_request \<Rightarrow>
          if r_status db_request \<noteq> ''pending''
          then Inl (HTTPException 400 ''Request has already been processed'')
          else
            let processed = db_request\<lparr>r_status := status, r_processed_at := Some now\<rparr>;
                new_user = \<lparr>u_id = next_id (map u_id (users db)),
                            u_username = r_username db_request,
                            u_email = r_email db_request,
                            u_password_hash = get_password_hash (r_username db_request @ ''123''),
                            u_name = r_name db_request,
                            u_role = r_role db_request\<rparr>
            in if status = ''approved''
                  \<and> user_taken db (r_username db_request) (r_email db_request)
               then Inl IntegrityError
               else Inr (processed,
                    db\<lparr>registration_requests :=
                         update_first (\<lambda>r. r_id r = request_id) (\<lambda>_. processed)
                           (registration_requests db),
                       users := (if status = ''approved'' then users db @ [new_user]
                                 else users db)\<rparr>))"

subsection \<open>\<^verbatim>\<open>routers/registration_requests.py\<close>\<close>

definition rr_create_registration_request ::
  "store \<Rightarrow> registration_request_create \<Rightarrow> error + (registration_request \<times> store)" where
  "rr_create_registration_request db request =
     (if find (\<lambda>r. r_email r = rc_email request) (registration_requests db) \<noteq> None
      then Inl (HTTPException 400 ''Registration request with this email already exists'')
      else Inr (new_request db request,
                db\<lparr>registration_requests := registration_requests db @ [new_request db request]\<rparr>))"

definition rr_get_registration_requests ::
  "store \<Rightarrow> string option \<Rightarrow> user \<Rightarrow> error + registration_request list" where
  \<comment> \<open>After the role test the query orders by \<^verbatim>\<open>RegistrationRequest.created_at\<close>, which
     the class does not declare (the column is \<^verbatim>\<open>requested_at\<close>).\<close>
  "rr_get_registration_requests db status_filter current_user =
     (if u_role current_user \<noteq> ''admin''
      then Inl (HTTPException 403 ''Only admins can view registration requests'')
      else Inl AttributeError)"

definition get_registration_request ::
  "store \<Rightarrow> int \<Rightarrow> user \<Rightarrow> error + registration_request" where
  "get_registration_request db request_id current_user =
     (if u_role current_user \<noteq> ''admin''
      then Inl (HTTPException 403 ''Only admins can view registration requests'')
      else case find (\<lambda>r. r_id r = request_id) (registration_requests db) of
        None \<Rightarrow> Inl (HTTPException 404 ''Registration request not found'')
      | Some request \<Rightarrow> Inr request)"

definition local_part :: "string \<Rightarrow> string" where
  \<comment> \<open>\<^verbatim>\<open>email.split('@')[0]\<close>: the text before the first \<^verbatim>\<open>@\<close> (all of it when there
     is none).\<close>
  "local_part email = takeWhile (\<lambda>c. c \<noteq> CHR ''@'') email"

definition approve_registration_request ::
  "store \<Rightarrow> int \<Rightarrow> user \<Rightarrow> error + ((string \<times> string \<times> string) \<times> store)" where
  \<comment> \<open>The response would be (message, username, default password). After the loop has
     found a free username, the handler builds the user and reads
     \<^verbatim>\<open>request.first_name\<close>, which the request table does not declare (it has \<^verbatim>\<open>name\<close>):
     the read raises before \<^verbatim>\<open>db.add\<close>, so nothing is stored and the status stays
     \<^verbatim>\<open>pending\<close>.\<close>
  "approve_registration_request db request_id current_user =
     (if u_role current_user \<noteq> ''admin''
      then Inl (HTTPException 403 ''Only admins can approve registration requests'')
      else case find (\<lambda>r. r_id r = request_id) (registration_requests db) of
        None \<Rightarrow> Inl (HTTPException 404 ''Registration request not found'')
      | Some request \<Rightarrow>
          if r_status request \<noteq> ''pending''
          then Inl (HTTPException 400 ''Request has already been processed'')
          else
            let original_username = local_part (r_email request);
                username = unique_username (users db) original_username original_username 1
            in Inl AttributeError)"

definition reject_registration_request ::
  "store \<Rightarrow> int \<Rightarrow> user \<Rightarrow> error + (string \<times> store)" where
  "reject_registration_request db request_id current_user =
     (if u_role current_user \<noteq> ''admin''
      then Inl (HTTPException 403 ''Only admins can reject registration requests'')
      else case find (\<lambda>r. r_id r = request_id) (registration_requests db) of
        None \<Rightarrow> Inl (HTTPException 404 ''Registration request not found'')
      | Some request \<Rightarrow>
          if r_status request \<noteq> ''pending''
          then Inl (HTTPException 400 ''Request has already been processed'')
          else Inr (''Registration request rejected'',
                    db\<lparr>registration_requests :=
                         update_first (\<lambda>r. r_id r = request_id)
                           (\<lambda>r. r\<lparr>r_status := ''rejected''\<rparr>) (registration_requests db)\<rparr>))"

definition delete_registration_request ::
  "store \<Rightarrow> int \<Rightarrow> user \<Rightarrow> error + (string \<times> store)" where
  "delete_registration_request db request_id current_user =
     (if u_role current_user \<noteq> ''admin''
      then Inl (HTTPException 403 ''Only admins can delete registration requests'')
      else case find (\<lambda>r. r_id r = request_id) (registration_requests db) of
        None \<Rightarrow> Inl (HTTPException 404 ''Registration request not found'')
      | Some request \<Rightarrow>
          Inr (''Registration request deleted successfully'',
               db\<lparr>registration_requests :=
                    delete_first (\<lambda>r. r_id r = request_id) (registration_requests db)\<rparr>))"

subsection \<open>\<^verbatim>\<open>routers/assignments.py\<close>\<close>

definition new_assignment :: "store \<Rightarrow> assignment_create \<Rightarrow> user \<Rightarrow> assignment" where
  \<comment> \<open>\<^verbatim>\<open>Assignment(**assignment.dict(), created_by_id=current_user.id)\<close>, once stored.\<close>
  "new_assignment db assignment current_user =
     \<lparr>a_id = next_id (map a_id (assignments db)),
      a_title = ac_title assignment, a_description = ac_description assignment,
      a_subject = ac_subject assignment, a_class_name = ac_class_name assignment,
      a_due_date = ac_due_date assignment, a_created_by_id = u_id current_user\<rparr>"

definition assignments_create_assignment ::
  "store \<Rightarrow> assignment_create \<Rightarrow> user \<Rightarrow> error + (assignment \<times> store)" where
  "assignments_create_assignment db assignment current_user =
     (if u_role current_user \<notin> set [''teacher'', ''admin'']
      then Inl (HTTPException 403 ''Only teachers and admins can create assignments'')
      else Inr (new_assignment db assignment current_user,
                db\<lparr>assignments := assignments db @ [new_assignment db assignment current_user]\<rparr>))"

definition get_assignments ::
  "store \<Rightarrow> string option \<Rightarrow> string option \<Rightarrow> user \<Rightarrow> assignment list" where
  \<comment> \<open>The handler raises nowhere. \<^verbatim>\<open>if class_name:\<close> and \<^verbatim>\<open>if subject:\<close> test Python
     truth, so an empty string filters nothing.\<close>
  "get_assignments db class_name subject current_user =
     (let query = assignments db;
          query =
            (if u_role current_user = ''student''
             then (if truthy class_name
                   then filter (\<lambda>a. a_class_name a = the class_name \<or> a_class_name a = ''all'')
                          query
                   else query)
             else if u_role current_user = ''teacher''
             then filter (\<lambda>a. a_created_by_id a = u_id current_user) query
             else query);
          query = (if truthy subject then filter (\<lambda>a. a_subject a = the subject) query
                   else query)
      in query)"

definition get_assignment :: "store \<Rightarrow> int \<Rightarrow> user \<Rightarrow> error + assignment" where
  "get_assignment db assignment_id current_user =
     (case find (\<lambda>a. a_id a = assignment_id) (assignments db) of
        None \<Rightarrow> Inl (HTTPException 404 ''Assignment not found'')
      | Some assignment \<Rightarrow> Inr assignment)"

definition update_assignment ::
  "store \<Rightarrow> int \<Rightarrow> assignment_create \<Rightarrow> user \<Rightarrow> error + (assignment \<times> store)" where
  "update_assignment db assignment_id assignment_update current_user =
     (case find (\<lambda>a. a_id a = assignment_id) (assignments db) of
        None \<Rightarrow> Inl (HTTPException 404 ''Assignment not found'')
      | Some assignment \<Rightarrow>
          if a_created_by_id assignment \<noteq> u_id current_user \<and> u_role current_user \<noteq> ''admin''
          then Inl (HTTPException 403 ''You can only update your own assignments'')
          else
            let updated = assignment\<lparr>a_title := ac_title assignment_update,
                                     a_description := ac_description assignment_update,
                                     a_subject := ac_subject assignment_update,
                                     a_class_name := ac_class_name assignment_update,
                                     a_due_date := ac_due_date assignment_update\<rparr>
            in Inr (updated,
                    db\<lparr>assignments :=
                         update_first (\<lambda>a. a_id a = assignment_id) (\<lambda>_. updated)
                           (assignments db)\<rparr>))"

definition delete_assignment :: "store \<Rightarrow> int \<Rightarrow> user \<Rightarrow> error + (string \<times> store)" where
  \<comment> \<open>The relationship to the submissions has no delete cascade: on \<^verbatim>\<open>db.delete\<close> the
     mapper would set the \<^verbatim>\<open>assignment_id\<close> of the assignment's submissions to null,
     which the column does not admit, so the commit raises when there are any.\<close>
  "delete_assignment db assignment_id current_user =
     (case find (\<lambda>a. a_id a = assignment_id) (assignments db) of
        None \<Rightarrow> Inl (HTTPException 404 ''Assignment not found'')
      | Some assignment \<Rightarrow>
          if a_created_by_id assignment \<noteq> u_id current_user \<and> u_role current_user \<noteq> ''admin''
          then Inl (HTTPException 403 ''You can only delete your own assignments'')
          else if \<exists>s\<in>set (assignment_submissions db). s_assignment_id s = assignment_id
          then Inl IntegrityError
          else Inr (''Assignment deleted successfully'',
                    db\<lparr>assignments :=
                         delete_first (\<lambda>a. a_id a = assignment_id) (assignments db)\<rparr>))"

definition new_submission ::
  "store \<Rightarrow> int \<Rightarrow> assignment_submission_create \<Rightarrow> user \<Rightarrow> assignment_submission" where
  \<comment> \<open>The stored submission: grade and feedback start unset.\<close>
  "new_submission db assignment_id submission current_user =
     \<lparr>s_id = next_id (map s_id (assignment_submissions db)),
      s_assignment_id = assignment_id, s_student_id = u_id current_user,
      s_content = sc_content submission, s_grade = None, s_feedback = None\<rparr>"

definition assignments_submit_assignment ::
  "store \<Rightarrow> int \<Rightarrow> assignment_submission_create \<Rightarrow> user
     \<Rightarrow> error + (assignment_submission \<times> store)" where
  \<comment> \<open>After its three tests this route builds the row from
     \<^verbatim>\<open>submission.submission_text\<close> and \<^verbatim>\<open>submission.file_path\<close>; the body class declares
     \<^verbatim>\<open>content\<close> and \<^verbatim>\<open>assignment_id\<close> only, so the read raises before \<^verbatim>\<open>db.add\<close>.\<close>
  "assignments_submit_assignment db assignment_id submission current_user =
     (if u_role current_user \<noteq> ''student''
      then Inl (HTTPException 403 ''Only students can submit assignments'')
      else case find (\<lambda>a. a_id a = assignment_id) (assignments db) of
        None \<Rightarrow> Inl (HTTPException 404 ''Assignment not found'')
      | Some assignment \<Rightarrow>
          if find (\<lambda>s. s_assignment_id s = assignment_id \<and> s_student_id s = u_id current_user)
               (assignment_submissions db) \<noteq> None
          then Inl (HTTPException 400 ''Assignment already submitted'')
          else Inl AttributeError)"

definition assignments_get_assignment_submissions ::
  "store \<Rightarrow> int \<Rightarrow> user \<Rightarrow> error + assignment_submission list" where
  "assignments_get_assignment_submissions db assignment_id current_user =
     (if u_role current_user \<notin> set [''teacher'', ''admin'']
      then Inl (HTTPException 403 ''Only teachers and admins can view submissions'')
      else Inr (filter (\<lambda>s. s_assignment_id s = assignment_id) (assignment_submissions db)))"

subsection \<open>\<^verbatim>\<open>routers/teachers.py\<close>\<close>

definition teachers_create_assignment ::
  "store \<Rightarrow> assignment_create \<Rightarrow> user \<Rightarrow> error + (assignment \<times> store)" where
  "teachers_create_assignment db assignment current_user =
     (if u_role current_user \<notin> set [''teacher'', ''admin'']
      then Inl (HTTPException 403 ''Only teachers and admins can create assignments'')
      else Inr (new_assignment db assignment current_user,
                db\<lparr>assignments := assignments db @ [new_assignment db assignment current_user]\<rparr>))"

definition get_teacher_assignments :: "store \<Rightarrow> user \<Rightarrow> error + assignment list" where
  "get_teacher_assignments db current_user =
     (if u_role current_user \<notin> set [''teacher'', ''admin'']
      then Inl (HTTPException 403 ''Only teachers and admins can access this endpoint'')
      else if u_role current_user = ''admin'' then Inr (assignments db)
      else Inr (filter (\<lambda>a. a_created_by_id a = u_id current_user) (assignments db)))"

definition teachers_get_assignment_submissions ::
  "store \<Rightarrow> int \<Rightarrow> user \<Rightarrow> error + assignment_submission list" where
  "teachers_get_assignment_submissions db assignment_id current_user =
     (if u_role current_user \<notin> set [''teacher'', ''admin'']
      then Inl (HTTPException 403 ''Only teachers and admins can view submissions'')
      else case find (\<lambda>a. a_id a = assignment_id) (assignments db) of
        None \<Rightarrow> Inl (HTTPException 404 ''Assignment not found'')
      | Some assignment \<Rightarrow>
          if u_role current_user = ''teacher'' \<and> a_created_by_id assignment \<noteq> u_id current_user
          then Inl (HTTPException 403 ''You can only view submissions for your own assignments'')
          else Inr (filter (\<lambda>s. s_assignment_id s = assignment_id)
                      (assignment_submissions db)))"

definition grade_submission ::
  "store \<Rightarrow> int \<Rightarrow> assignment_submission_grade \<Rightarrow> user
     \<Rightarrow> error + (assignment_submission \<times> store)" where
  \<comment> \<open>For a teacher the parent assignment is looked up and its \<^verbatim>\<open>created_by_id\<close> read
     without a test for \<^verbatim>\<open>None\<close>: with no such assignment the read raises
     \<^verbatim>\<open>AttributeError\<close>.\<close>
  "grade_submission db submission_id grade_data current_user =
     (if u_role current_user \<notin> set [''teacher'', ''admin'']
      then Inl (HTTPException 403 ''Only teachers and admins can grade submissions'')
      else case find (\<lambda>s. s_id s = submission_id) (assignment_submissions db) of
        None \<Rightarrow> Inl (HTTPException 404 ''Submission not found'')
      | Some submission \<Rightarrow>
          let graded = submission\<lparr>s_grade := Some (g_grade grade_data),
                                  s_feedback := g_feedback grade_data\<rparr>;
              committed = Inr (graded,
                db\<lparr>assignment_submissions :=
                     update_first (\<lambda>s. s_id s = submission_id) (\<lambda>_. graded)
                       (assignment_submissions db)\<rparr>)
          in if u_role current_user = ''teacher''
             then (case find (\<lambda>a. a_id a = s_assignment_id submission) (assignments db) of
                     None \<Rightarrow> Inl AttributeError
                   | Some assignment \<Rightarrow>
                       if a_created_by_id assignment \<noteq> u_id current_user
                       then Inl (HTTPException 403
                              ''You can only grade submissions for your own assignments'')
                       else committed)
             else committed)"

subsection \<open>\<^verbatim>\<open>routers/students.py\<close>\<close>

definition get_student_assignments :: "store \<Rightarrow> user \<Rightarrow> error + assignment list" where
  "get_student_assignments db current_user =
     (if u_role current_user \<noteq> ''student''
      then Inl (HTTPException 403 ''Only students can access this endpoint'')
      else Inr (assignments db))"

definition students_submit_assignment ::
  "store \<Rightarrow> int \<Rightarrow> assignment_submission_create \<Rightarrow> user
     \<Rightarrow> error + (assignment_submission \<times> store)" where
  "students_submit_assignment db assignment_id submission current_user =
     (if u_role current_user \<noteq> ''student''
      then Inl (HTTPException 403 ''Only students can submit assignments'')
      else case find (\<lambda>a. a_id a = assignment_id) (assignments db) of
        None \<Rightarrow> Inl (HTTPException 404 ''Assignment not found'')
      | Some assignment \<Rightarrow>
          if find (\<lambda>s. s_assignment_id s = assignment_id \<and> s_student_id s = u_id current_user)
               (assignment_submissions db) \<noteq> None
          then Inl (HTTPException 400 ''Assignment already submitted'')
          else Inr (new_submission db assignment_id submission current_user,
                    db\<lparr>assignment_submissions := assignment_submissions db
                         @ [new_submission db assignment_id submission current_user]\<rparr>))"

definition get_student_submissions ::
  "store \<Rightarrow> user \<Rightarrow> error + assignment_submission list" where
  "get_student_submissions db current_user =
     (if u_role current_user \<noteq> ''student''
      then Inl (HTTPException 403 ''Only students can access this endpoint'')
      else Inr (filter (\<lambda>s. s_student_id s = u_id current_user) (assignment_submissions db)))"

subsection \<open>\<^verbatim>\<open>routers/messages.py\<close>\<close>

text \<open>
  This module names the sender, the receiver and the read flag of a message
  \<^verbatim>\<open>from_user_id\<close>, \<^verbatim>\<open>to_user_id\<close> and \<^verbatim>\<open>read\<close>, and expects a \<^verbatim>\<open>message_type\<close>. The
  message table declares \<^verbatim>\<open>sender_id\<close>, \<^verbatim>\<open>receiver_id\<close> and \<^verbatim>\<open>is_read\<close>, and the request body
  \<^verbatim>\<open>receiver_id\<close>; neither has a \<^verbatim>\<open>message_type\<close>. So each handler raises at its first read
  of one of these names.
\<close>

definition send_message ::
  "store \<Rightarrow> message_create \<Rightarrow> user \<Rightarrow> error + (message \<times> store)" where
  \<comment> \<open>No role test. The first statement reads \<^verbatim>\<open>message.to_user_id\<close> of the body.\<close>
  "send_message db message current_user = Inl AttributeError"

definition get_messages ::
  "store \<Rightarrow> string option \<Rightarrow> bool \<Rightarrow> user \<Rightarrow> error + message list" where
  \<comment> \<open>The first statement reads \<^verbatim>\<open>Message.to_user_id\<close> of the table.\<close>
  "get_messages db message_type unread_only current_user = Inl AttributeError"

definition get_sent_messages :: "store \<Rightarrow> user \<Rightarrow> error + message list" where
  \<comment> \<open>The first statement reads \<^verbatim>\<open>Message.from_user_id\<close> of the table.\<close>
  "get_sent_messages db current_user = Inl AttributeError"

definition get_message :: "store \<Rightarrow> int \<Rightarrow> user \<Rightarrow> error + message" where
  \<comment> \<open>With the row found, the test of the caller reads \<^verbatim>\<open>message.from_user_id\<close>.\<close>
  "get_message db message_id current_user =
     (case find (\<lambda>m. m_id m = message_id) (messages db) of
        None \<Rightarrow> Inl (HTTPException 404 ''Message not found'')
      | Some message \<Rightarrow> Inl AttributeError)"

definition mark_message_as_read :: "store \<Rightarrow> int \<Rightarrow> user \<Rightarrow> error + (string \<times> store)" where
  \<comment> \<open>With the row found, the test of the caller reads \<^verbatim>\<open>message.to_user_id\<close>.\<close>
  "mark_message_as_read db message_id current_user =
     (case find (\<lambda>m. m_id m = message_id) (messages db) of
        None \<Rightarrow> Inl (HTTPException 404 ''Message not found'')
      | Some message \<Rightarrow> Inl AttributeError)"

definition get_unread_count :: "store \<Rightarrow> user \<Rightarrow> error + nat" where
  \<comment> \<open>The query reads \<^verbatim>\<open>Message.to_user_id\<close> of the table.\<close>
  "get_unread_count db current_user = Inl AttributeError"

definition get_teachers :: "store \<Rightarrow> user \<Rightarrow> error + (int \<times> string \<times> string) list" where
  \<comment> \<open>Each teacher as (id, name, username).\<close>
  "get_teachers db current_user =
     (if u_role current_user \<notin> set [''student'', ''parent'', ''admin'']
      then Inl (HTTPException 403 ''Access denied'')
      else Inr (map (\<lambda>t. (u_id t, u_name t, u_username t))
                  (filter (\<lambda>u. u_role u = ''teacher'') (users db))))"

definition send_message_to_teacher ::
  "store \<Rightarrow> message_create \<Rightarrow> user \<Rightarrow> error + (message \<times> store)" where
  \<comment> \<open>After the role test, \<^verbatim>\<open>if message.to_user_id:\<close> reads the body.\<close>
  "send_message_to_teacher db message current_user =
     (if u_role current_user \<notin> set [''student'', ''parent'']
      then Inl (HTTPException 403 ''Only students and parents can send messages to teachers'')
      else Inl AttributeError)"

subsection \<open>\<^verbatim>\<open>routers/attendance.py\<close>\<close>

definition get_attendance :: "store \<Rightarrow> user \<Rightarrow> string" where
  "get_attendance db current_user = ''Attendance feature coming soon''"

definition mark_attendance :: "store \<Rightarrow> user \<Rightarrow> string" where
  "mark_attendance db current_user = ''Attendance marking feature coming soon''"

subsection \<open>\<^verbatim>\<open>main.py\<close>: the seed accounts\<close>

definition ensure_user ::
  "(string \<Rightarrow> string) \<Rightarrow> string \<Rightarrow> string \<Rightarrow> string \<Rightarrow> string \<Rightarrow> string \<Rightarrow> store
     \<Rightarrow> error + store" where
  \<comment> \<open>The test is on the username alone; the commit raises when the email is taken.\<close>
  "ensure_user get_password_hash username email password name role db =
     (if find (\<lambda>u. u_username u = username) (users db) = None
      then (if user_taken db username email then Inl IntegrityError
            else Inr (db\<lparr>users := users db @
                [\<lparr>u_id = next_id (map u_id (users db)), u_username = username,
                  u_email = email, u_password_hash = get_password_hash password,
                  u_name = name, u_role = role\<rparr>]\<rparr>))
      else Inr db)"

definition seed_default_users :: "(string \<Rightarrow> string) \<Rightarrow> store \<Rightarrow> error + store" where
  "seed_default_users get_password_hash db =
     (case ensure_user get_password_hash ''admin'' ''admin@school.com'' ''admin123''
             ''Administrator'' ''admin'' db of
        Inl e \<Rightarrow> Inl e
      | Inr db \<Rightarrow>
     (case ensure_user get_password_hash ''teacher1'' ''teacher1@school.com'' ''teacher123''
             ''Teacher One'' ''teacher'' db of
        Inl e \<Rightarrow> Inl e
      | Inr db \<Rightarrow>
     (case ensure_user get_password_hash ''parent1'' ''parent1@school.com'' ''parent123''
             ''Parent One'' ''parent'' db of
        Inl e \<Rightarrow> Inl e
      | Inr db \<Rightarrow>
        ensure_user get_password_hash ''student1'' ''student1@school.com'' ''student123''
          ''Student One'' ''student'' db)))"

section \<open>The authorization gate\<close>

text \<open>
  The source has no gate function: every handler tests the caller's role, and some the
  caller's id against the resource, before it acts. \<open>allowed\<close> collects these tests, one
  equation per route handler, from the condition under which the handler raises 403.
  An action on a resource carries the ids the test reads: the \<^verbatim>\<open>created_by_id\<close> of the
  assignment (for a grade or a submission list, of the parent assignment), or the
  sender and the receiver of the message. For reading one message and for marking it
  read, the equation is the test as the handler writes it; the handler itself raises
  while evaluating that test (see \<open>get_message\<close>), so no caller ever gets its 403.
\<close>

datatype action =
    Login
  | GetCurrentUserInfo
  | GetAllUsers
  | AuthCreateRegistrationRequest
  | AuthGetRegistrationRequests
  | ProcessRegistrationRequest
  | RRCreateRegistrationRequest
  | RRGetRegistrationRequests
  | GetRegistrationRequest
  | ApproveRegistrationRequest
  | RejectRegistrationRequest
  | DeleteRegistrationRequest
  | AssignmentsCreateAssignment
  | GetAssignments
  | GetAssignment
  | UpdateAssignment int
  | DeleteAssignment int
  | AssignmentsSubmitAssignment
  | AssignmentsGetAssignmentSubmissions
  | TeachersCreateAssignment
  | GetTeacherAssignments
  | TeachersGetAssignmentSubmissions int
  | GradeSubmission int
  | GetStudentAssignments
  | StudentsSubmitAssignment
  | GetStudentSubmissions
  | SendMessage
  | GetMessages
  | GetSentMessages
  | GetMessage int int
  | MarkMessageAsRead int
  | GetUnreadCount
  | GetTeachers
  | SendMessageToTeacher
  | GetAttendance
  | MarkAttendance

fun allowed :: "string \<Rightarrow> int \<Rightarrow> action \<Rightarrow> bool" where
  "allowed role uid Login = True"
| "allowed role uid GetCurrentUserInfo = True"
| "allowed role uid GetAllUsers = (role = ''admin'')"
| "allowed role uid AuthCreateRegistrationRequest = True"
| "allowed role uid AuthGetRegistrationRequests = (role = ''admin'')"
| "allowed role uid ProcessRegistrationRequest = (role = ''admin'')"
| "allowed role uid RRCreateRegistrationRequest = True"
| "allowed role uid RRGetRegistrationRequests = (role = ''admin'')"
| "allowed role uid GetRegistrationRequest = (role = ''admin'')"
| "allowed role uid ApproveRegistrationRequest = (role = ''admin'')"
| "allowed role uid RejectRegistrationRequest = (role = ''admin'')"
| "allowed role uid DeleteRegistrationRequest = (role = ''admin'')"
| "allowed role uid AssignmentsCreateAssignment = (role \<in> set [''teacher'', ''admin''])"
| "allowed role uid GetAssignments = True"
| "allowed role uid GetAssignment = True"
| "allowed role uid (UpdateAssignment created_by_id) =
     (\<not> (created_by_id \<noteq> uid \<and> role \<noteq> ''admin''))"
| "allowed role uid (DeleteAssignment created_by_id) =
     (\<not> (created_by_id \<noteq> uid \<and> role \<noteq> ''admin''))"
| "allowed role uid AssignmentsSubmitAssignment = (role = ''student'')"
| "allowed role uid AssignmentsGetAssignmentSubmissions = (role \<in> set [''teacher'', ''admin''])"
| "allowed role uid TeachersCreateAssignment = (role \<in> set [''teacher'', ''admin''])"
| "allowed role uid GetTeacherAssignments = (role \<in> set [''teacher'', ''admin''])"
| "allowed role uid (TeachersGetAssignmentSubmissions created_by_id) =
     (role \<in> set [''teacher'', ''admin''] \<and> \<not> (role = ''teacher'' \<and> created_by_id \<noteq> uid))"
| "allowed role uid (GradeSubmission created_by_id) =
     (role \<in> set [''teacher'', ''admin''] \<and> \<not> (role = ''teacher'' \<and> created_by_id \<noteq> uid))"
| "allowed role uid GetStudentAssignments = (role = ''student'')"
| "allowed role uid StudentsSubmitAssignment = (role = ''student'')"
| "allowed role uid GetStudentSubmissions = (role = ''student'')"
| "allowed role uid SendMessage = True"
| "allowed role uid GetMessages = True"
| "allowed role uid GetSentMessages = True"
| "allowed role uid (GetMessage from_user_id to_user_id) =
     (\<not> (from_user_id \<noteq> uid \<and> to_user_id \<noteq> uid))"
| "allowed role uid (MarkMessageAsRead to_user_id) = (\<not> to_user_id \<noteq> uid)"
| "allowed role uid GetUnreadCount = True"
| "allowed role uid GetTeachers = (role \<in> set [''student'', ''parent'', ''admin''])"
| "allowed role uid SendMessageToTeacher = (role \<in> set [''student'', ''parent''])"
| "allowed role uid GetAttendance = True"
| "allowed role uid MarkAttendance = True"

fun message_party_action :: "action \<Rightarrow> bool" where
  \<comment> \<open>The two actions whose test is on the caller's id alone, whatever the role.\<close>
  "message_party_action (GetMessage from_user_id to_user_id) = True"
| "message_party_action (MarkMessageAsRead to_user_id) = True"
| "message_party_action action = False"

definition forbidden :: "error + 'a \<Rightarrow> bool" where
  \<comment> \<open>The handler raised \<^verbatim>\<open>HTTP_403_FORBIDDEN\<close>.\<close>
  "forbidden result =
     (case result of Inl (HTTPException status_code detail) \<Rightarrow> status_code = 403 | _ \<Rightarrow> False)"

section \<open>Reachable stores\<close>

text \<open>
  The stores that the handlers produce from the empty store, one whole handler call at
  a time. Every handler that commits is a rule; the caller and the request data are
  arbitrary, so the set contains every store that authenticated callers can produce by
  calls that do not overlap. A handler that raises on every input contributes nothing.
\<close>

inductive reachable :: "store \<Rightarrow> bool" where
  r_empty: "reachable empty_store"
| r_seed: "reachable db \<Longrightarrow> seed_default_users get_password_hash db = Inr db'
       \<Longrightarrow> reachable db'"
| r_auth_create:
    "reachable db \<Longrightarrow> auth_create_registration_request db request = Inr (res, db')
       \<Longrightarrow> reachable db'"
| r_process:
    "reachable db \<Longrightarrow>
       process_registration_request get_password_hash now db request_id status current_user
         = Inr (res, db')
       \<Longrightarrow> reachable db'"
| r_rr_create:
    "reachable db \<Longrightarrow> rr_create_registration_request db request = Inr (res, db')
       \<Longrightarrow> reachable db'"
| r_approve:
    "reachable db \<Longrightarrow>
       approve_registration_request db request_id current_user = Inr (res3, db')
       \<Longrightarrow> reachable db'"
| r_reject:
    "reachable db \<Longrightarrow> reject_registration_request db request_id current_user = Inr (res1, db')
       \<Longrightarrow> reachable db'"
| r_delete_request:
    "reachable db \<Longrightarrow> delete_registration_request db request_id current_user = Inr (res1, db')
       \<Longrightarrow> reachable db'"
| r_assignments_create:
    "reachable db \<Longrightarrow> assignments_create_assignment db body current_user = Inr (resa, db')
       \<Longrightarrow> reachable db'"
| r_teachers_create:
    "reachable db \<Longrightarrow> teachers_create_assignment db body current_user = Inr (resa, db')
       \<Longrightarrow> reachable db'"
| r_update_assignment:
    "reachable db \<Longrightarrow> update_assignment db assignment_id body current_user = Inr (resa, db')
       \<Longrightarrow> reachable db'"
| r_delete_assignment:
    "reachable db \<Longrightarrow> delete_assignment db assignment_id current_user = Inr (res1, db')
       \<Longrightarrow> reachable db'"
| r_assignments_submit:
    "reachable db \<Longrightarrow>
       assignments_submit_assignment db assignment_id submission current_user = Inr (ress, db')
       \<Longrightarrow> reachable db'"
| r_students_submit:
    "reachable db \<Longrightarrow>
       students_submit_assignment db assignment_id submission current_user = Inr (ress, db')
       \<Longrightarrow> reachable db'"
| r_grade:
    "reachable db \<Longrightarrow> grade_submission db submission_id grade_data current_user = Inr (ress, db')
       \<Longrightarrow> reachable db'"
| r_send_message:
    "reachable db \<Longrightarrow> send_message db message current_user = Inr (resm, db')
       \<Longrightarrow> reachable db'"
| r_send_to_teacher:
    "reachable db \<Longrightarrow> send_message_to_teacher db message current_user = Inr (resm, db')
       \<Longrightarrow> reachable db'"
| r_mark_read:
    "reachable db \<Longrightarrow> mark_message_as_read db message_id current_user = Inr (res1, db')
       \<Longrightarrow> reachable db'"

section \<open>Store invariants\<close>

lemma fold_max_ge: "b \<le> fold max ids (b::int) \<and> (\<forall>x\<in>set ids. x \<le> fold max ids b)"
proof (induction ids arbitrary: b)
  case Nil
  show ?case by simp
next
  case (Cons i ids)
  from Cons.IH [of "max i b"] show ?case by auto
qed

lemma next_id_fresh: "next_id ids \<notin> set ids"
proof
  assume "next_id ids \<in> set ids"
  with fold_max_ge [of 0 ids] have "next_id ids \<le> fold max ids 0" by blast
  then show False by (simp add: next_id_def)
qed

lemma next_id_fresh_map: "next_id (map g xs) \<notin> g ` set xs"
  using next_id_fresh [of "map g xs"] by simp

lemma find_update_first_same:
  "find P xs = Some y \<Longrightarrow> P z \<Longrightarrow> find P (update_first P (\<lambda>_. z) xs) = Some z"
  by (induction xs) (auto split: if_splits)

lemma find_update_first:
  "find P xs = Some y \<Longrightarrow> P (f y) \<Longrightarrow> find P (update_first P f xs) = Some (f y)"
  by (induction xs) (auto split: if_splits)

lemma map_update_first_const:
  "find P xs = Some y \<Longrightarrow> g z = g y \<Longrightarrow> map g (update_first P (\<lambda>_. z) xs) = map g xs"
  by (induction xs) (auto split: if_splits)

lemma map_update_first:
  "(\<And>x. P x \<Longrightarrow> g (f x) = g x) \<Longrightarrow> map g (update_first P f xs) = map g xs"
  by (induction xs) auto

lemma set_delete_first: "set (delete_first P xs) \<subseteq> set xs"
  by (induction xs) auto

lemma distinct_map_delete_first:
  "distinct (map g xs) \<Longrightarrow> distinct (map g (delete_first P xs))"
proof (induction xs)
  case Nil
  show ?case by simp
next
  case (Cons x xs)
  then show ?case
    using set_delete_first [of P xs] by auto
qed

lemma find_SomeD: "find P xs = Some y \<Longrightarrow> P y \<and> y \<in> set xs"
  by (induction xs) (auto split: if_splits)

definition store_inv :: "store \<Rightarrow> bool" where
  "store_inv db =
     (distinct (map u_id (users db))
      \<and> distinct (map a_id (assignments db))
      \<and> distinct (map s_id (assignment_submissions db))
      \<and> distinct (map m_id (messages db))
      \<and> distinct (map r_id (registration_requests db))
      \<and> distinct (map (\<lambda>s. (s_assignment_id s, s_student_id s)) (assignment_submissions db))
      \<and> distinct (map u_username (users db))
      \<and> distinct (map u_email (users db)))"

lemma inv_empty: "store_inv empty_store"
  by (simp add: store_inv_def empty_store_def)

lemma user_taken_free:
  "\<not> user_taken db username email \<Longrightarrow>
     username \<notin> u_username ` set (users db) \<and> email \<notin> u_email ` set (users db)"
  by (auto simp: user_taken_def)

lemma inv_add_user:
  assumes "store_inv db" and "\<not> user_taken db (u_username u) (u_email u)"
    and "u_id u = next_id (map u_id (users db))"
  shows "store_inv (db\<lparr>users := users db @ [u]\<rparr>)"
  using assms(1,3) user_taken_free [OF assms(2)]
  by (simp add: store_inv_def next_id_fresh_map)

lemma inv_ensure_user:
  assumes "ensure_user h username email password name role db = Inr db'" and "store_inv db"
  shows "store_inv db'"
proof (cases "find (\<lambda>u. u_username u = username) (users db) = None")
  case False
  with assms show ?thesis
    by (simp add: ensure_user_def)
next
  case True
  let ?u = "\<lparr>u_id = next_id (map u_id (users db)), u_username = username, u_email = email,
      u_password_hash = h password, u_name = name, u_role = role\<rparr>"
  from assms(1) True have free: "\<not> user_taken db username email"
    and db': "db' = db\<lparr>users := users db @ [?u]\<rparr>"
    by (auto simp: ensure_user_def split: if_splits)
  from inv_add_user [OF assms(2), of ?u] free show ?thesis
    unfolding db' by simp
qed

lemma inv_seed:
  assumes "seed_default_users h db = Inr db'" and "store_inv db"
  shows "store_inv db'"
proof -
  from assms(1) obtain db1 db2 db3 where
    "ensure_user h ''admin'' ''admin@school.com'' ''admin123'' ''Administrator'' ''admin'' db
       = Inr db1"
    "ensure_user h ''teacher1'' ''teacher1@school.com'' ''teacher123'' ''Teacher One'' ''teacher''
       db1 = Inr db2"
    "ensure_user h ''parent1'' ''parent1@school.com'' ''parent123'' ''Parent One'' ''parent'' db2
       = Inr db3"
    "ensure_user h ''student1'' ''student1@school.com'' ''student123'' ''Student One'' ''student''
       db3 = Inr db'"
    by (auto simp: seed_default_users_def split: sum.splits)
  with assms(2) show ?thesis
    by (blast intro: inv_ensure_user)
qed

lemma inv_auth_create:
  "auth_create_registration_request db request = Inr (res, db') \<Longrightarrow> store_inv db \<Longrightarrow> store_inv db'"
  by (auto simp: auth_create_registration_request_def new_request_def store_inv_def next_id_fresh_map
      split: if_splits)

lemma inv_rr_create:
  "rr_create_registration_request db request = Inr (res, db') \<Longrightarrow> store_inv db \<Longrightarrow> store_inv db'"
  by (auto simp: rr_create_registration_request_def new_request_def store_inv_def next_id_fresh_map
      split: if_splits)


lemma inv_process:
  assumes "process_registration_request h now db request_id status current_user = Inr (res, db')"
    and "store_inv db"
  shows "store_inv db'"
proof -
  from assms(1) obtain db_request where
    found: "find (\<lambda>r. r_id r = request_id) (registration_requests db) = Some db_request"
    by (auto simp: process_registration_request_def split: if_splits option.splits)
  let ?processed = "db_request\<lparr>r_status := status, r_processed_at := Some now\<rparr>"
  let ?u = "\<lparr>u_id = next_id (map u_id (users db)), u_username = r_username db_request,
      u_email = r_email db_request, u_password_hash = h (r_username db_request @ ''123''),
      u_name = r_name db_request, u_role = r_role db_request\<rparr>"
  let ?requests = "update_first (\<lambda>r. r_id r = request_id) (\<lambda>_. ?processed)
      (registration_requests db)"
  have key: "r_id ?processed = r_id db_request"
    by simp
  note same = map_update_first_const [OF found key]
  show ?thesis
  proof (cases "status = ''approved''")
    case False
    with assms(1) found have "db' = db\<lparr>registration_requests := ?requests\<rparr>"
      by (auto simp: process_registration_request_def Let_def split: if_splits)
    with assms(2) same show ?thesis
      by (simp add: store_inv_def)
  next
    case True
    with assms(1) found have
      free: "\<not> user_taken db (r_username db_request) (r_email db_request)"
      and db': "db' = (db\<lparr>users := users db @ [?u]\<rparr>)\<lparr>registration_requests := ?requests\<rparr>"
      by (auto simp: process_registration_request_def Let_def split: if_splits)
    from inv_add_user [OF assms(2), of ?u] free
    have "store_inv (db\<lparr>users := users db @ [?u]\<rparr>)"
      by simp
    with same show ?thesis
      unfolding db' by (simp add: store_inv_def)
  qed
qed

lemma inv_approve:
  assumes "approve_registration_request db request_id current_user = Inr (res, db')"
    and "store_inv db"
  shows "store_inv db'"
  using assms(1)
  by (simp add: approve_registration_request_def Let_def split: if_splits option.splits)

lemma inv_reject:
  assumes "reject_registration_request db request_id current_user = Inr (res, db')"
    and "store_inv db"
  shows "store_inv db'"
proof -
  have same: "map r_id (update_first (\<lambda>r. r_id r = request_id) (\<lambda>r. r\<lparr>r_status := ''rejected''\<rparr>)
      (registration_requests db)) = map r_id (registration_requests db)"
    by (rule map_update_first) simp
  from assms(1) have
    "db' = db\<lparr>registration_requests := update_first (\<lambda>r. r_id r = request_id)
        (\<lambda>r. r\<lparr>r_status := ''rejected''\<rparr>) (registration_requests db)\<rparr>"
    by (auto simp: reject_registration_request_def split: if_splits option.splits)
  with assms(2) same show ?thesis
    by (simp add: store_inv_def)
qed

lemma inv_delete_request:
  assumes "delete_registration_request db request_id current_user = Inr (res, db')"
    and "store_inv db"
  shows "store_inv db'"
proof -
  from assms(1) have
    "db' = db\<lparr>registration_requests :=
        delete_first (\<lambda>r. r_id r = request_id) (registration_requests db)\<rparr>"
    by (auto simp: delete_registration_request_def split: if_splits option.splits)
  with assms(2) show ?thesis
    by (simp add: store_inv_def distinct_map_delete_first)
qed

lemma inv_assignments_create:
  assumes "assignments_create_assignment db body current_user = Inr (res, db')"
    and "store_inv db"
  shows "store_inv db'"
proof -
  from assms(1) have
    "db' = db\<lparr>assignments := assignments db @ [new_assignment db body current_user]\<rparr>"
    by (auto simp: assignments_create_assignment_def split: if_splits)
  with assms(2) show ?thesis
    by (simp add: store_inv_def new_assignment_def next_id_fresh_map)
qed

lemma inv_teachers_create:
  assumes "teachers_create_assignment db body current_user = Inr (res, db')"
    and "store_inv db"
  shows "store_inv db'"
proof -
  from assms(1) have
    "db' = db\<lparr>assignments := assignments db @ [new_assignment db body current_user]\<rparr>"
    by (auto simp: teachers_create_assignment_def split: if_splits)
  with assms(2) show ?thesis
    by (simp add: store_inv_def new_assignment_def next_id_fresh_map)
qed

lemma inv_update_assignment:
  assumes "update_assignment db assignment_id body current_user = Inr (res, db')"
    and "store_inv db"
  shows "store_inv db'"
proof -
  from assms(1) obtain a where
    found: "find (\<lambda>a. a_id a = assignment_id) (assignments db) = Some a"
    by (auto simp: update_assignment_def split: option.splits)
  let ?updated = "a\<lparr>a_title := ac_title body, a_description := ac_description body,
      a_subject := ac_subject body, a_class_name := ac_class_name body,
      a_due_date := ac_due_date body\<rparr>"
  have key: "a_id ?updated = a_id a" by simp
  note same = map_update_first_const [OF found key]
  from assms(1) found have
    "db' = db\<lparr>assignments := update_first (\<lambda>a. a_id a = assignment_id) (\<lambda>_. ?updated)
        (assignments db)\<rparr>"
    by (auto simp: update_assignment_def Let_def split: if_splits)
  with assms(2) same show ?thesis
    by (simp add: store_inv_def)
qed

lemma inv_delete_assignment:
  assumes "delete_assignment db assignment_id current_user = Inr (res, db')"
    and "store_inv db"
  shows "store_inv db'"
proof -
  from assms(1) have
    "db' = db\<lparr>assignments := delete_first (\<lambda>a. a_id a = assignment_id) (assignments db)\<rparr>"
    by (simp add: delete_assignment_def split: if_splits option.splits)
  with assms(2) show ?thesis
    by (simp add: store_inv_def distinct_map_delete_first)
qed

lemma find_pair_None:
  "find (\<lambda>s. s_assignment_id s = a \<and> s_student_id s = u) subs = None
     \<Longrightarrow> (a, u) \<notin> (\<lambda>s. (s_assignment_id s, s_student_id s)) ` set subs"
  by (auto simp: find_None_iff)

lemma inv_add_submission:
  assumes "store_inv db"
    and "find (\<lambda>s. s_assignment_id s = assignment_id \<and> s_student_id s = u_id current_user)
           (assignment_submissions db) = None"
  shows "store_inv (db\<lparr>assignment_submissions := assignment_submissions db
           @ [new_submission db assignment_id submission current_user]\<rparr>)"
  using assms(1) find_pair_None [OF assms(2)]
  by (simp add: store_inv_def new_submission_def next_id_fresh_map)

lemma inv_assignments_submit:
  assumes "assignments_submit_assignment db assignment_id submission current_user = Inr (res, db')"
    and "store_inv db"
  shows "store_inv db'"
  using assms(1)
  by (simp add: assignments_submit_assignment_def split: if_splits option.splits)

lemma inv_students_submit:
  assumes "students_submit_assignment db assignment_id submission current_user = Inr (res, db')"
    and "store_inv db"
  shows "store_inv db'"
proof -
  from assms(1) have
    "find (\<lambda>s. s_assignment_id s = assignment_id \<and> s_student_id s = u_id current_user)
       (assignment_submissions db) = None"
    and "db' = db\<lparr>assignment_submissions := assignment_submissions db
           @ [new_submission db assignment_id submission current_user]\<rparr>"
    by (auto simp: students_submit_assignment_def split: if_splits option.splits)
  with assms(2) show ?thesis
    by (simp add: inv_add_submission)
qed

lemma inv_grade:
  assumes "grade_submission db submission_id grade_data current_user = Inr (res, db')"
    and "store_inv db"
  shows "store_inv db'"
proof -
  from assms(1) obtain s where
    found: "find (\<lambda>s. s_id s = submission_id) (assignment_submissions db) = Some s"
    by (auto simp: grade_submission_def split: if_splits option.splits)
  let ?graded = "s\<lparr>s_grade := Some (g_grade grade_data), s_feedback := g_feedback grade_data\<rparr>"
  have "s_id ?graded = s_id s" by simp
  note same_id = map_update_first_const [OF found this]
  have "(\<lambda>s. (s_assignment_id s, s_student_id s)) ?graded
      = (\<lambda>s. (s_assignment_id s, s_student_id s)) s" by simp
  note same_pair = map_update_first_const [OF found this]
  from assms(1) found have
    "db' = db\<lparr>assignment_submissions :=
        update_first (\<lambda>s. s_id s = submission_id) (\<lambda>_. ?graded) (assignment_submissions db)\<rparr>"
    by (auto simp: grade_submission_def Let_def split: if_splits option.splits)
  with assms(2) same_id same_pair show ?thesis
    by (simp add: store_inv_def)
qed

lemma inv_send_message:
  assumes "send_message db message current_user = Inr (res, db')"
    and "store_inv db"
  shows "store_inv db'"
  using assms(1) by (simp add: send_message_def)

lemma inv_send_to_teacher:
  assumes "send_message_to_teacher db message current_user = Inr (res, db')"
    and "store_inv db"
  shows "store_inv db'"
  using assms(1) by (simp add: send_message_to_teacher_def split: if_splits)

lemma inv_mark_read:
  assumes "mark_message_as_read db message_id current_user = Inr (res, db')"
    and "store_inv db"
  shows "store_inv db'"
  using assms(1) by (simp add: mark_message_as_read_def split: option.splits)

lemma reachable_inv: "reachable db \<Longrightarrow> store_inv db"
proof (induction rule: reachable.induct)
  case r_empty
  show ?case by (rule inv_empty)
next
  case (r_seed db get_password_hash db')
  then show ?case by (blast intro: inv_seed)
next
  case (r_auth_create db request res db')
  then show ?case by (blast intro: inv_auth_create)
next
  case (r_process db get_password_hash now request_id status current_user res db')
  then show ?case by (blast intro: inv_process)
next
  case (r_rr_create db request res db')
  then show ?case by (blast intro: inv_rr_create)
next
  case (r_approve db request_id current_user res3 db')
  then show ?case by (blast intro: inv_approve)
next
  case (r_reject db request_id current_user res1 db')
  then show ?case by (blast intro: inv_reject)
next
  case (r_delete_request db request_id current_user res1 db')
  then show ?case by (blast intro: inv_delete_request)
next
  case (r_assignments_create db body current_user resa db')
  then show ?case by (blast intro: inv_assignments_create)
next
  case (r_teachers_create db body current_user resa db')
  then show ?case by (blast intro: inv_teachers_create)
next
  case (r_update_assignment db assignment_id body current_user resa db')
  then show ?case by (blast intro: inv_update_assignment)
next
  case (r_delete_assignment db assignment_id current_user res1 db')
  then show ?case by (blast intro: inv_delete_assignment)
next
  case (r_assignments_submit db assignment_id submission current_user ress db')
  then show ?case by (blast intro: inv_assignments_submit)
next
  case (r_students_submit db assignment_id submission current_user ress db')
  then show ?case by (blast intro: inv_students_submit)
next
  case (r_grade db submission_id grade_data current_user ress db')
  then show ?case by (blast intro: inv_grade)
next
  case (r_send_message db message current_user resm db')
  then show ?case by (blast intro: inv_send_message)
next
  case (r_send_to_teacher db message current_user resm db')
  then show ?case by (blast intro: inv_send_to_teacher)
next
  case (r_mark_read db message_id current_user res1 db')
  then show ?case by (blast intro: inv_mark_read)
qed

lemma distinct_map_filter_le_1:
  "distinct (map g xs) \<Longrightarrow> length (filter (\<lambda>x. g x = k) xs) \<le> 1"
proof (induction xs)
  case Nil
  show ?case by simp
next
  case (Cons x xs)
  show ?case
  proof (cases "g x = k")
    case True
    with Cons.prems have "k \<notin> g ` set xs"
      by simp
    then have "filter (\<lambda>x. g x = k) xs = []"
      by (auto simp: filter_empty_conv)
    with True show ?thesis by simp
  next
    case False
    with Cons show ?thesis by simp
  qed
qed

lemma distinct_map_find:
  "distinct (map g xs) \<Longrightarrow> x \<in> set xs \<Longrightarrow> find (\<lambda>y. g y = g x) xs = Some x"
  by (induction xs) (auto simp: image_iff)

section \<open>A concrete scenario\<close>

text \<open>
  The store after start-up (\<^verbatim>\<open>seed_default_users\<close> on the empty store) with a toy
  credential service, and the four seeded callers. The theorems below are instantiated
  on stores built from it.
\<close>

definition demo_hash :: "string \<Rightarrow> string" where
  "demo_hash password = ''hashed:'' @ password"

definition demo_verify :: "string \<Rightarrow> string \<Rightarrow> bool" where
  "demo_verify password password_hash = (password_hash = demo_hash password)"

definition demo_token :: "string \<Rightarrow> string" where
  "demo_token username = ''token:'' @ username"

definition admin_user :: user where
  "admin_user = \<lparr>u_id = 1, u_username = ''admin'', u_email = ''admin@school.com'',
     u_password_hash = demo_hash ''admin123'', u_name = ''Administrator'', u_role = ''admin''\<rparr>"

definition teacher_user :: user where
  "teacher_user = \<lparr>u_id = 2, u_username = ''teacher1'', u_email = ''teacher1@school.com'',
     u_password_hash = demo_hash ''teacher123'', u_name = ''Teacher One'', u_role = ''teacher''\<rparr>"

definition parent_user :: user where
  "parent_user = \<lparr>u_id = 3, u_username = ''parent1'', u_email = ''parent1@school.com'',
     u_password_hash = demo_hash ''parent123'', u_name = ''Parent One'', u_role = ''parent''\<rparr>"

definition student_user :: user where
  "student_user = \<lparr>u_id = 4, u_username = ''student1'', u_email = ''student1@school.com'',
     u_password_hash = demo_hash ''student123'', u_name = ''Student One'', u_role = ''student''\<rparr>"

definition seeded :: store where
  "seeded = \<lparr>users = [admin_user, teacher_user, parent_user, student_user], assignments = [],
     assignment_submissions = [], messages = [], registration_requests = []\<rparr>"

lemma seeded_eq:
  "seeded = \<lparr>users = [admin_user, teacher_user, parent_user, student_user], assignments = [],
     assignment_submissions = [], messages = [], registration_requests = []\<rparr>"
  by (rule seeded_def)

lemma seed_seeded: "seed_default_users demo_hash empty_store = Inr seeded"
  by (simp add: seed_default_users_def ensure_user_def user_taken_def empty_store_def
      next_id_def seeded_def admin_user_def teacher_user_def parent_user_def student_user_def)

lemma reachable_seeded: "reachable seeded"
  by (rule r_seed [OF r_empty seed_seeded])

section \<open>Login\<close>

text \<open>
  C9. Login fails uniformly. When no user has the given username, and when a user has it
  but the password does not verify, \<open>login\<close> raises the same error: status 401 with the
  detail \<^verbatim>\<open>Invalid credentials\<close>. Every error \<open>login\<close> raises is this one, so the response
  does not tell the two causes apart.
\<close>

theorem login_fails_uniformly:
  "(find (\<lambda>u. u_username u = l_username c) (users db) = None
      \<longrightarrow> login verify_password create_access_token db c
            = Inl (HTTPException 401 ''Invalid credentials''))
   \<and> (\<forall>user. find (\<lambda>u. u_username u = l_username c) (users db) = Some user
         \<and> \<not> verify_password (l_password c) (u_password_hash user)
      \<longrightarrow> login verify_password create_access_token db c
            = Inl (HTTPException 401 ''Invalid credentials''))
   \<and> (\<forall>e. login verify_password create_access_token db c = Inl e
      \<longrightarrow> e = HTTPException 401 ''Invalid credentials'')"
  by (auto simp: login_def split: option.splits)

theorem login_fails_uniformly_witness:
  "find (\<lambda>u. u_username u = ''nobody'') (users seeded) = None
   \<and> find (\<lambda>u. u_username u = ''admin'') (users seeded) = Some admin_user
   \<and> \<not> demo_verify ''guess'' (u_password_hash admin_user)
   \<and> login demo_verify demo_token seeded \<lparr>l_username = ''nobody'', l_password = ''guess''\<rparr>
       = Inl (HTTPException 401 ''Invalid credentials'')
   \<and> login demo_verify demo_token seeded \<lparr>l_username = ''admin'', l_password = ''guess''\<rparr>
       = Inl (HTTPException 401 ''Invalid credentials'')
   \<and> login demo_verify demo_token seeded \<lparr>l_username = ''admin'', l_password = ''admin123''\<rparr>
       = Inr (''token:admin'', ''bearer'')"
proof -
  have absent: "find (\<lambda>u. u_username u = ''nobody'') (users seeded) = None"
    by (simp add: seeded_eq admin_user_def teacher_user_def parent_user_def student_user_def)
  have present: "find (\<lambda>u. u_username u = ''admin'') (users seeded) = Some admin_user"
    by (simp add: seeded_eq admin_user_def)
  have wrong: "\<not> demo_verify ''guess'' (u_password_hash admin_user)"
    by (simp add: demo_verify_def demo_hash_def admin_user_def)
  have right: "login demo_verify demo_token seeded \<lparr>l_username = ''admin'', l_password = ''admin123''\<rparr>
       = Inr (''token:admin'', ''bearer'')"
    by (simp add: login_def present) (simp add: demo_verify_def demo_token_def admin_user_def)
  note thm1 = login_fails_uniformly [of "\<lparr>l_username = ''nobody'', l_password = ''guess''\<rparr>" seeded
      demo_verify demo_token, THEN conjunct1, rule_format]
  have a: "login demo_verify demo_token seeded \<lparr>l_username = ''nobody'', l_password = ''guess''\<rparr>
       = Inl (HTTPException 401 ''Invalid credentials'')"
    by (rule thm1) (simp add: absent)
  note thm2 = login_fails_uniformly [of "\<lparr>l_username = ''admin'', l_password = ''guess''\<rparr>" seeded
      demo_verify demo_token, THEN conjunct2, THEN conjunct1, rule_format, of admin_user]
  have b: "login demo_verify demo_token seeded \<lparr>l_username = ''admin'', l_password = ''guess''\<rparr>
       = Inl (HTTPException 401 ''Invalid credentials'')"
    by (rule thm2) (simp add: present wrong)
  from absent present wrong a b right show ?thesis by (intro conjI)
qed

section \<open>Fetching one assignment\<close>

text \<open>The scenario continues: the seeded teacher creates one assignment for class 10A.\<close>

definition hw1_body :: assignment_create where
  "hw1_body = \<lparr>ac_title = ''HW1'', ac_description = None, ac_subject = ''Math'',
     ac_class_name = ''10A'', ac_due_date = 0\<rparr>"

definition hw1 :: assignment where
  "hw1 = \<lparr>a_id = 1, a_title = ''HW1'', a_description = None, a_subject = ''Math'',
     a_class_name = ''10A'', a_due_date = 0, a_created_by_id = 2\<rparr>"

definition with_hw1 :: store where
  "with_hw1 = seeded\<lparr>assignments := [hw1]\<rparr>"

lemma create_hw1:
  "assignments_create_assignment seeded hw1_body teacher_user = Inr (hw1, with_hw1)"
  by (simp add: assignments_create_assignment_def new_assignment_def with_hw1_def hw1_def
      hw1_body_def seeded_eq teacher_user_def next_id_def)

lemma reachable_with_hw1: "reachable with_hw1"
  by (rule r_assignments_create [OF reachable_seeded create_hw1])

lemma assignments_with_hw1: "assignments with_hw1 = [hw1]"
  by (simp add: with_hw1_def)

text \<open>
  C10. Fetching one assignment by id tests neither role nor ownership. In every reachable
  store, every stored assignment is returned to every caller, whatever the caller's role
  or id; for an id that no assignment has, the handler raises 404; this is the only
  error it raises, so it never raises 403.
\<close>

theorem get_assignment_ungated:
  assumes "reachable db"
  shows "(\<forall>a\<in>set (assignments db). \<forall>current_user.
            get_assignment db (a_id a) current_user = Inr a)
       \<and> (\<forall>assignment_id current_user.
            (\<forall>a\<in>set (assignments db). a_id a \<noteq> assignment_id)
            \<longrightarrow> get_assignment db assignment_id current_user
                  = Inl (HTTPException 404 ''Assignment not found''))
       \<and> (\<forall>assignment_id current_user e.
            get_assignment db assignment_id current_user = Inl e
            \<longrightarrow> e = HTTPException 404 ''Assignment not found''
                \<and> (\<forall>a\<in>set (assignments db). a_id a \<noteq> assignment_id))
       \<and> (\<forall>assignment_id current_user.
            \<not> forbidden (get_assignment db assignment_id current_user))"
proof -
  from assms have "distinct (map a_id (assignments db))"
    by (auto dest: reachable_inv simp: store_inv_def)
  then have present: "\<And>a. a \<in> set (assignments db)
      \<Longrightarrow> find (\<lambda>y. a_id y = a_id a) (assignments db) = Some a"
    by (rule distinct_map_find)
  have absent: "\<And>i. (\<forall>a\<in>set (assignments db). a_id a \<noteq> i)
      \<Longrightarrow> find (\<lambda>y. a_id y = i) (assignments db) = None"
    by (simp add: find_None_iff)
  have errors: "\<And>i cu e. get_assignment db i cu = Inl e
      \<Longrightarrow> e = HTTPException 404 ''Assignment not found''
          \<and> (\<forall>a\<in>set (assignments db). a_id a \<noteq> i)"
    by (auto simp: get_assignment_def find_None_iff split: option.splits)
  have ungated: "\<And>i cu. \<not> forbidden (get_assignment db i cu)"
    by (simp add: get_assignment_def forbidden_def split: option.splits)
  have "\<forall>a\<in>set (assignments db). \<forall>current_user.
            get_assignment db (a_id a) current_user = Inr a"
    by (simp add: get_assignment_def present)
  moreover have "\<forall>assignment_id current_user.
            (\<forall>a\<in>set (assignments db). a_id a \<noteq> assignment_id)
            \<longrightarrow> get_assignment db assignment_id current_user
                  = Inl (HTTPException 404 ''Assignment not found'')"
    by (simp add: get_assignment_def absent)
  ultimately show ?thesis
    using errors ungated by blast
qed

theorem get_assignment_ungated_witness:
  "reachable with_hw1 \<and> hw1 \<in> set (assignments with_hw1)
   \<and> get_assignment with_hw1 1 parent_user = Inr hw1
   \<and> get_assignment with_hw1 1 student_user = Inr hw1
   \<and> get_assignment with_hw1 7 parent_user = Inl (HTTPException 404 ''Assignment not found'')"
proof -
  note inst = get_assignment_ungated [OF reachable_with_hw1]
  have mem: "hw1 \<in> set (assignments with_hw1)"
    by (simp add: assignments_with_hw1)
  have id1: "a_id hw1 = 1" by (simp add: hw1_def)
  from inst [THEN conjunct1, rule_format, OF mem, of parent_user]
  have a: "get_assignment with_hw1 1 parent_user = Inr hw1" by (simp only: id1)
  from inst [THEN conjunct1, rule_format, OF mem, of student_user]
  have b: "get_assignment with_hw1 1 student_user = Inr hw1" by (simp only: id1)
  have "\<forall>a\<in>set (assignments with_hw1). a_id a \<noteq> 7"
    by (simp add: assignments_with_hw1 id1)
  from inst [THEN conjunct2, THEN conjunct1, THEN spec, THEN spec, THEN mp, OF this]
  have c: "get_assignment with_hw1 7 parent_user = Inl (HTTPException 404 ''Assignment not found'')" .
  from reachable_with_hw1 mem a b c show ?thesis by (intro conjI)
qed

section \<open>Submissions\<close>

lemma submit_first:
  assumes "u_role current_user = ''student''"
    and "find (\<lambda>a. a_id a = assignment_id) (assignments db) \<noteq> None"
    and "find (\<lambda>s. s_assignment_id s = assignment_id \<and> s_student_id s = u_id current_user)
           (assignment_submissions db) = None"
  shows "students_submit_assignment db assignment_id submission current_user
         = Inr (new_submission db assignment_id submission current_user,
                db\<lparr>assignment_submissions := assignment_submissions db
                     @ [new_submission db assignment_id submission current_user]\<rparr>)"
  using assms by (auto simp: students_submit_assignment_def)

lemma submit_conflict:
  assumes "u_role current_user = ''student''"
    and "find (\<lambda>a. a_id a = assignment_id) (assignments db) \<noteq> None"
    and "find (\<lambda>s. s_assignment_id s = assignment_id \<and> s_student_id s = u_id current_user)
           (assignment_submissions db) \<noteq> None"
  shows "students_submit_assignment db assignment_id submission current_user
         = Inl (HTTPException 400 ''Assignment already submitted'')"
    and "assignments_submit_assignment db assignment_id submission current_user
         = Inl (HTTPException 400 ''Assignment already submitted'')"
  using assms
  by (auto simp: students_submit_assignment_def assignments_submit_assignment_def)

lemma assignments_submit_first_raises:
  assumes "u_role current_user = ''student''"
    and "find (\<lambda>a. a_id a = assignment_id) (assignments db) \<noteq> None"
    and "find (\<lambda>s. s_assignment_id s = assignment_id \<and> s_student_id s = u_id current_user)
           (assignment_submissions db) = None"
  shows "assignments_submit_assignment db assignment_id submission current_user
         = Inl AttributeError"
  using assms by (auto simp: assignments_submit_assignment_def)

lemma assignments_submit_stores_nothing:
  "isl (assignments_submit_assignment db assignment_id submission current_user)"
  by (simp add: assignments_submit_assignment_def split: option.splits)

lemma find_append_new: "P x \<Longrightarrow> find P (xs @ [x]) \<noteq> None"
  by (auto simp: find_None_iff)

lemma filter_pair_eq:
  "filter (\<lambda>x. s_assignment_id x = a \<and> s_student_id x = s) subs
   = filter (\<lambda>x. (s_assignment_id x, s_student_id x) = (a, s)) subs"
  by simp

text \<open>
  What holds of the submit routes. In every store reachable by whole handler calls there
  is at most one submission row for each pair of assignment id and student id. On the
  route of \<^verbatim>\<open>students.py\<close> a student's first submit to an existing assignment succeeds,
  and a second submit by the same student to the same assignment, on either route,
  raises the conflict error and stores nothing.
\<close>

lemma submissions_at_most_one:
  assumes "reachable db"
  shows "length (filter (\<lambda>x. s_assignment_id x = a \<and> s_student_id x = s)
           (assignment_submissions db)) \<le> 1"
proof -
  from assms have "distinct (map (\<lambda>s. (s_assignment_id s, s_student_id s))
      (assignment_submissions db))"
    by (auto dest: reachable_inv simp: store_inv_def)
  from distinct_map_filter_le_1 [OF this, of "(a, s)"] show ?thesis
    by (simp only: filter_pair_eq)
qed

lemma submit_then_conflict:
  assumes reach: "reachable db"
    and role: "u_role current_user = ''student''"
    and exists: "find (\<lambda>a. a_id a = assignment_id) (assignments db) \<noteq> None"
    and fresh: "find (\<lambda>s. s_assignment_id s = assignment_id \<and> s_student_id s = u_id current_user)
           (assignment_submissions db) = None"
  shows "\<exists>row db'. students_submit_assignment db assignment_id submission current_user
             = Inr (row, db')
           \<and> reachable db'
           \<and> students_submit_assignment db' assignment_id submission' current_user
             = Inl (HTTPException 400 ''Assignment already submitted'')
           \<and> assignments_submit_assignment db' assignment_id submission' current_user
             = Inl (HTTPException 400 ''Assignment already submitted'')
           \<and> length (filter (\<lambda>x. s_assignment_id x = assignment_id
                                 \<and> s_student_id x = u_id current_user)
                        (assignment_submissions db')) = 1"
proof -
  let ?row = "new_submission db assignment_id submission current_user"
  let ?db' = "db\<lparr>assignment_submissions := assignment_submissions db @ [?row]\<rparr>"
  let ?P = "\<lambda>x. s_assignment_id x = assignment_id \<and> s_student_id x = u_id current_user"
  have first: "students_submit_assignment db assignment_id submission current_user
      = Inr (?row, ?db')"
    by (rule submit_first [OF role exists fresh])
  have reach': "reachable ?db'"
    by (rule r_students_submit [OF reach first])
  have row: "?P ?row"
    by (simp add: new_submission_def)
  have held: "find ?P (assignment_submissions ?db') \<noteq> None"
    using find_append_new [of ?P ?row "assignment_submissions db"] row by simp
  have exists': "find (\<lambda>a. a_id a = assignment_id) (assignments ?db') \<noteq> None"
    using exists by simp
  note second = submit_conflict [OF role exists' held, of submission']
  have "filter ?P (assignment_submissions db) = []"
    using fresh by (simp add: find_None_iff filter_empty_conv)
  with row have count: "length (filter ?P (assignment_submissions ?db')) = 1"
    by simp
  from first reach' second count show ?thesis by blast
qed

text \<open>The scenario continues: the seeded student submits to the assignment.\<close>

definition sub_body :: assignment_submission_create where
  "sub_body = \<lparr>sc_content = ''my answer'', sc_assignment_id = 1\<rparr>"

definition sub1 :: assignment_submission where
  "sub1 = \<lparr>s_id = 1, s_assignment_id = 1, s_student_id = 4, s_content = ''my answer'',
     s_grade = None, s_feedback = None\<rparr>"

definition with_sub :: store where
  "with_sub = with_hw1\<lparr>assignment_submissions := [sub1]\<rparr>"

lemma hw1_found: "find (\<lambda>a. a_id a = 1) (assignments with_hw1) = Some hw1"
  by (simp add: assignments_with_hw1 hw1_def)

lemma no_submissions_with_hw1: "assignment_submissions with_hw1 = []"
  by (simp add: with_hw1_def seeded_eq)

lemma submit_sub1:
  "students_submit_assignment with_hw1 1 sub_body student_user = Inr (sub1, with_sub)"
  by (simp add: students_submit_assignment_def hw1_found no_submissions_with_hw1
      new_submission_def next_id_def with_sub_def sub1_def sub_body_def student_user_def)

text \<open>
  C2. At most one submission row exists for each pair of assignment id and student id:
  a student's first submit to an assignment succeeds, and a second submit fails with
  the conflict error and stores nothing. The route of \<^verbatim>\<open>assignments.py\<close> breaks the first
  half: with the seeded student, the existing assignment 1 and no submission yet, the
  handler passes its three tests and raises \<^verbatim>\<open>AttributeError\<close> while building the row, so
  the first submit does not succeed. The same first submit on the route of
  \<^verbatim>\<open>students.py\<close> succeeds, and after it a second submit raises the conflict on both
  routes.
\<close>

theorem first_submit_raises_on_assignments_route:
  "u_role student_user = ''student''
   \<and> find (\<lambda>a. a_id a = 1) (assignments with_hw1) = Some hw1
   \<and> assignment_submissions with_hw1 = []
   \<and> assignments_submit_assignment with_hw1 1 sub_body student_user = Inl AttributeError
   \<and> students_submit_assignment with_hw1 1 sub_body student_user = Inr (sub1, with_sub)
   \<and> assignments_submit_assignment with_sub 1 sub_body student_user
       = Inl (HTTPException 400 ''Assignment already submitted'')
   \<and> students_submit_assignment with_sub 1 sub_body student_user
       = Inl (HTTPException 400 ''Assignment already submitted'')"
proof -
  have role: "u_role student_user = ''student''"
    by (simp add: student_user_def)
  have first: "assignments_submit_assignment with_hw1 1 sub_body student_user
      = Inl AttributeError"
    by (rule assignments_submit_first_raises)
       (simp_all add: role hw1_found no_submissions_with_hw1)
  have exists: "find (\<lambda>a. a_id a = 1) (assignments with_sub) \<noteq> None"
    by (simp add: with_sub_def hw1_found)
  have held: "find (\<lambda>s. s_assignment_id s = 1 \<and> s_student_id s = u_id student_user)
      (assignment_submissions with_sub) \<noteq> None"
    by (simp add: with_sub_def sub1_def student_user_def)
  note second = submit_conflict [OF role exists held, of sub_body]
  from role hw1_found no_submissions_with_hw1 first submit_sub1 second
  show ?thesis by (intro conjI)
qed

section \<open>Grading\<close>

lemma update_first_const_idem:
  "P z \<Longrightarrow> update_first P (\<lambda>_. z) (update_first P (\<lambda>_. z) xs) = update_first P (\<lambda>_. z) xs"
  by (induction xs) auto

lemma grade_once:
  assumes found: "find (\<lambda>s. s_id s = submission_id) (assignment_submissions db) = Some submission"
    and actor: "u_role current_user = ''admin''
        \<or> (u_role current_user = ''teacher''
           \<and> (\<exists>a. find (\<lambda>a. a_id a = s_assignment_id submission) (assignments db) = Some a
                  \<and> a_created_by_id a = u_id current_user))"
  shows "grade_submission db submission_id grade_data current_user
         = Inr (submission\<lparr>s_grade := Some (g_grade grade_data),
                           s_feedback := g_feedback grade_data\<rparr>,
                db\<lparr>assignment_submissions :=
                     update_first (\<lambda>s. s_id s = submission_id)
                       (\<lambda>_. submission\<lparr>s_grade := Some (g_grade grade_data),
                                        s_feedback := g_feedback grade_data\<rparr>)
                       (assignment_submissions db)\<rparr>)"
  using actor
proof
  assume "u_role current_user = ''admin''"
  then show ?thesis
    by (simp add: grade_submission_def found Let_def)
next
  assume "u_role current_user = ''teacher''
      \<and> (\<exists>a. find (\<lambda>a. a_id a = s_assignment_id submission) (assignments db) = Some a
             \<and> a_created_by_id a = u_id current_user)"
  then obtain a where "u_role current_user = ''teacher''"
    and "find (\<lambda>a. a_id a = s_assignment_id submission) (assignments db) = Some a"
    and "a_created_by_id a = u_id current_user"
    by blast
  then show ?thesis
    by (simp add: grade_submission_def found Let_def)
qed

text \<open>
  C8. For a caller who is an admin, or the teacher who created the parent assignment of
  the submission, grading an existing submission succeeds and writes the given grade
  and feedback over whatever the row held, a grade set earlier included. Grading again
  with the same arguments returns the same row and leaves the same store: the
  overwrite is idempotent.
\<close>

theorem grade_idempotent_overwrite:
  assumes found: "find (\<lambda>s. s_id s = submission_id) (assignment_submissions db) = Some submission"
    and actor: "u_role current_user = ''admin''
        \<or> (u_role current_user = ''teacher''
           \<and> (\<exists>a. find (\<lambda>a. a_id a = s_assignment_id submission) (assignments db) = Some a
                  \<and> a_created_by_id a = u_id current_user))"
  shows "\<exists>graded db'.
           grade_submission db submission_id grade_data current_user = Inr (graded, db')
         \<and> graded = submission\<lparr>s_grade := Some (g_grade grade_data),
                                s_feedback := g_feedback grade_data\<rparr>
         \<and> find (\<lambda>s. s_id s = submission_id) (assignment_submissions db') = Some graded
         \<and> grade_submission db' submission_id grade_data current_user = Inr (graded, db')"
proof -
  let ?P = "\<lambda>s. s_id s = submission_id"
  let ?graded = "submission\<lparr>s_grade := Some (g_grade grade_data),
      s_feedback := g_feedback grade_data\<rparr>"
  let ?db' = "db\<lparr>assignment_submissions :=
      update_first ?P (\<lambda>_. ?graded) (assignment_submissions db)\<rparr>"
  have first: "grade_submission db submission_id grade_data current_user = Inr (?graded, ?db')"
    by (rule grade_once [OF found actor])
  from found have key: "?P ?graded"
    by (auto dest: find_SomeD)
  have found': "find ?P (assignment_submissions ?db') = Some ?graded"
    using find_update_first_same [OF found key] by simp
  have actor': "u_role current_user = ''admin''
        \<or> (u_role current_user = ''teacher''
           \<and> (\<exists>a. find (\<lambda>a. a_id a = s_assignment_id ?graded) (assignments ?db') = Some a
                  \<and> a_created_by_id a = u_id current_user))"
    using actor by simp
  have regraded: "?graded\<lparr>s_grade := Some (g_grade grade_data),
      s_feedback := g_feedback grade_data\<rparr> = ?graded"
    by simp
  have same_store: "?db'\<lparr>assignment_submissions :=
      update_first ?P (\<lambda>_. ?graded) (assignment_submissions ?db')\<rparr> = ?db'"
    using update_first_const_idem [of ?P ?graded "assignment_submissions db", OF key]
    by simp
  have second: "grade_submission ?db' submission_id grade_data current_user = Inr (?graded, ?db')"
    using grade_once [OF found' actor', of grade_data]
    by (simp only: regraded same_store)
  from first found' second show ?thesis by blast
qed

definition grade_a :: assignment_submission_grade where
  "grade_a = \<lparr>g_grade = ''A'', g_feedback = Some ''well done''\<rparr>"

definition grade_b :: assignment_submission_grade where
  "grade_b = \<lparr>g_grade = ''B'', g_feedback = None\<rparr>"

lemma sub1_found: "find (\<lambda>s. s_id s = 1) (assignment_submissions with_sub) = Some sub1"
  by (simp add: with_sub_def sub1_def)

lemma teacher_owns_hw1:
  "u_role teacher_user = ''teacher''
   \<and> (\<exists>a. find (\<lambda>a. a_id a = s_assignment_id sub1) (assignments with_sub) = Some a
          \<and> a_created_by_id a = u_id teacher_user)"
  by (simp add: teacher_user_def with_sub_def assignments_with_hw1 sub1_def hw1_def)

theorem grade_idempotent_overwrite_witness:
  "find (\<lambda>s. s_id s = 1) (assignment_submissions with_sub) = Some sub1
   \<and> u_role teacher_user = ''teacher''
   \<and> (\<exists>db'. grade_submission with_sub 1 grade_a teacher_user
               = Inr (sub1\<lparr>s_grade := Some ''A'', s_feedback := Some ''well done''\<rparr>, db')
            \<and> grade_submission db' 1 grade_a teacher_user
               = Inr (sub1\<lparr>s_grade := Some ''A'', s_feedback := Some ''well done''\<rparr>, db')
            \<and> (\<exists>db''. grade_submission db' 1 grade_b admin_user
                  = Inr (sub1\<lparr>s_grade := Some ''B'', s_feedback := None\<rparr>, db'')))"
proof -
  from grade_idempotent_overwrite [OF sub1_found disjI2, OF teacher_owns_hw1, of grade_a]
  obtain db' where
    first: "grade_submission with_sub 1 grade_a teacher_user
        = Inr (sub1\<lparr>s_grade := Some ''A'', s_feedback := Some ''well done''\<rparr>, db')"
    and found': "find (\<lambda>s. s_id s = 1) (assignment_submissions db')
        = Some (sub1\<lparr>s_grade := Some ''A'', s_feedback := Some ''well done''\<rparr>)"
    and second: "grade_submission db' 1 grade_a teacher_user
        = Inr (sub1\<lparr>s_grade := Some ''A'', s_feedback := Some ''well done''\<rparr>, db')"
    by (auto simp: grade_a_def)
  have admin: "u_role admin_user = ''admin''"
    by (simp add: admin_user_def)
  from grade_idempotent_overwrite [OF found' disjI1, OF admin, of grade_b]
  obtain db'' where "grade_submission db' 1 grade_b admin_user
      = Inr (sub1\<lparr>s_grade := Some ''B'', s_feedback := None\<rparr>, db'')"
    by (auto simp: grade_b_def)
  with first second sub1_found teacher_owns_hw1 show ?thesis by blast
qed

section \<open>Messages\<close>

lemma forbidden_simps:
  "forbidden (Inl (HTTPException c d)) = (c = 403)"
  "forbidden (Inl AttributeError) = False"
  "forbidden (Inl IntegrityError) = False"
  "forbidden (Inr x) = False"
  by (simp_all add: forbidden_def)

lemma get_message_found:
  "find (\<lambda>m. m_id m = message_id) (messages db) = Some message \<Longrightarrow>
     get_message db message_id current_user = Inl AttributeError"
  by (simp add: get_message_def)

lemma get_message_absent:
  "find (\<lambda>m. m_id m = message_id) (messages db) = None \<Longrightarrow>
     get_message db message_id current_user = Inl (HTTPException 404 ''Message not found'')"
  by (simp add: get_message_def)

lemma get_message_returns_nothing: "isl (get_message db message_id current_user)"
  by (simp add: get_message_def split: option.splits)

lemma get_message_never_forbidden: "\<not> forbidden (get_message db message_id current_user)"
  by (simp add: get_message_def forbidden_simps split: option.splits)

lemma sending_stores_nothing:
  "isl (send_message db message current_user)"
  "isl (send_message_to_teacher db message current_user)"
  by (simp_all add: send_message_def send_message_to_teacher_def)

text \<open>
  A store that holds one message, from the seeded student (id 4) to the seeded teacher
  (id 2). No handler call produces it, since both sending handlers raise; it stands for a
  message table filled by other means.
\<close>

definition msg1 :: message where
  "msg1 = \<lparr>m_id = 1, m_sender_id = 4, m_receiver_id = 2, m_subject = ''Question'',
     m_content = ''About HW1'', m_is_read = False\<rparr>"

definition with_msg :: store where
  "with_msg = seeded\<lparr>messages := [msg1]\<rparr>"

lemma msg1_found: "find (\<lambda>m. m_id m = 1) (messages with_msg) = Some msg1"
  by (simp add: with_msg_def msg1_def)

text \<open>
  C5. For every stored message and every caller, the handler returns the message if and
  only if the caller is its sender or its receiver, and every other caller gets 403.
  The handler breaks this for every stored message: its test of the caller reads
  \<^verbatim>\<open>message.from_user_id\<close> and \<^verbatim>\<open>message.to_user_id\<close>, which the message table does not
  declare, so the sender and the receiver get \<^verbatim>\<open>AttributeError\<close> in place of the
  message, and a caller who is neither gets \<^verbatim>\<open>AttributeError\<close> in place of 403. For an id
  that no stored message has, every caller gets 404: the handler looks the message up
  before it tests the caller.
\<close>

theorem get_message_raises_for_sender_and_receiver:
  "find (\<lambda>m. m_id m = 1) (messages with_msg) = Some msg1
   \<and> m_sender_id msg1 = u_id student_user
   \<and> m_receiver_id msg1 = u_id teacher_user
   \<and> get_message with_msg 1 student_user = Inl AttributeError
   \<and> get_message with_msg 1 teacher_user = Inl AttributeError
   \<and> get_message with_msg 1 admin_user = Inl AttributeError
   \<and> \<not> forbidden (get_message with_msg 1 admin_user)
   \<and> get_message with_msg 5 admin_user = Inl (HTTPException 404 ''Message not found'')"
proof -
  have parties: "m_sender_id msg1 = u_id student_user" "m_receiver_id msg1 = u_id teacher_user"
    by (simp_all add: msg1_def student_user_def teacher_user_def)
  have absent: "find (\<lambda>m. m_id m = 5) (messages with_msg) = None"
    by (simp add: with_msg_def msg1_def)
  from msg1_found parties
    get_message_found [OF msg1_found, of student_user]
    get_message_found [OF msg1_found, of teacher_user]
    get_message_found [OF msg1_found, of admin_user]
    get_message_never_forbidden [of with_msg 1 admin_user]
    get_message_absent [OF absent, of admin_user]
  show ?thesis by (intro conjI)
qed

section \<open>The gate and the handlers\<close>

text \<open>
  Each handler raises 403 exactly when \<open>allowed\<close> is false for its action. Where the
  handler looks a resource up first, the statement is about a resource that exists.
  The exceptions are reading one message and marking it read: these handlers raise
  \<^verbatim>\<open>AttributeError\<close> while they evaluate their test, so they never raise 403
  (\<open>get_message_never_forbidden\<close>), and their equations of \<open>allowed\<close> are the test as
  written. \<^verbatim>\<open>get_current_user_info\<close>, the two attendance handlers, the two intakes and
  \<^verbatim>\<open>login\<close> have no test and raise no 403.
\<close>

lemma gate_get_all_users:
  "forbidden (get_all_users db cu) \<longleftrightarrow> \<not> allowed (u_role cu) (u_id cu) GetAllUsers"
  by (simp add: get_all_users_def forbidden_simps)

lemma gate_auth_get_requests:
  "forbidden (auth_get_registration_requests db cu)
     \<longleftrightarrow> \<not> allowed (u_role cu) (u_id cu) AuthGetRegistrationRequests"
  by (simp add: auth_get_registration_requests_def forbidden_simps)

lemma gate_get_request:
  "forbidden (get_registration_request db request_id cu)
     \<longleftrightarrow> \<not> allowed (u_role cu) (u_id cu) GetRegistrationRequest"
  by (simp add: get_registration_request_def forbidden_simps split: option.splits)

lemma gate_rr_get_requests:
  "forbidden (rr_get_registration_requests db status_filter cu)
     \<longleftrightarrow> \<not> allowed (u_role cu) (u_id cu) RRGetRegistrationRequests"
  by (simp add: rr_get_registration_requests_def forbidden_simps)

lemma gate_process:
  "find (\<lambda>r. r_id r = request_id) (registration_requests db) = Some r \<Longrightarrow>
   forbidden (process_registration_request h now db request_id status cu)
     \<longleftrightarrow> \<not> allowed (u_role cu) (u_id cu) ProcessRegistrationRequest"
  by (simp add: process_registration_request_def forbidden_simps Let_def)

lemma gate_approve:
  "find (\<lambda>r. r_id r = request_id) (registration_requests db) = Some r \<Longrightarrow>
   forbidden (approve_registration_request db request_id cu)
     \<longleftrightarrow> \<not> allowed (u_role cu) (u_id cu) ApproveRegistrationRequest"
  by (simp add: approve_registration_request_def forbidden_simps Let_def)

lemma gate_reject:
  "find (\<lambda>r. r_id r = request_id) (registration_requests db) = Some r \<Longrightarrow>
   forbidden (reject_registration_request db request_id cu)
     \<longleftrightarrow> \<not> allowed (u_role cu) (u_id cu) RejectRegistrationRequest"
  by (simp add: reject_registration_request_def forbidden_simps)

lemma gate_delete_request:
  "find (\<lambda>r. r_id r = request_id) (registration_requests db) = Some r \<Longrightarrow>
   forbidden (delete_registration_request db request_id cu)
     \<longleftrightarrow> \<not> allowed (u_role cu) (u_id cu) DeleteRegistrationRequest"
  by (simp add: delete_registration_request_def forbidden_simps)

lemma gate_assignments_create:
  "forbidden (assignments_create_assignment db body cu)
     \<longleftrightarrow> \<not> allowed (u_role cu) (u_id cu) AssignmentsCreateAssignment"
  by (simp add: assignments_create_assignment_def forbidden_simps)

lemma gate_teachers_create:
  "forbidden (teachers_create_assignment db body cu)
     \<longleftrightarrow> \<not> allowed (u_role cu) (u_id cu) TeachersCreateAssignment"
  by (simp add: teachers_create_assignment_def forbidden_simps)

lemma gate_get_assignment:
  "forbidden (get_assignment db assignment_id cu)
     \<longleftrightarrow> \<not> allowed (u_role cu) (u_id cu) GetAssignment"
  by (simp add: get_assignment_def forbidden_simps split: option.splits)

lemma gate_update_assignment:
  "find (\<lambda>a. a_id a = assignment_id) (assignments db) = Some a \<Longrightarrow>
   forbidden (update_assignment db assignment_id body cu)
     \<longleftrightarrow> \<not> allowed (u_role cu) (u_id cu) (UpdateAssignment (a_created_by_id a))"
  by (simp add: update_assignment_def forbidden_simps Let_def)

lemma gate_delete_assignment:
  "find (\<lambda>a. a_id a = assignment_id) (assignments db) = Some a \<Longrightarrow>
   forbidden (delete_assignment db assignment_id cu)
     \<longleftrightarrow> \<not> allowed (u_role cu) (u_id cu) (DeleteAssignment (a_created_by_id a))"
  by (simp add: delete_assignment_def forbidden_simps)

lemma gate_assignments_submit:
  "forbidden (assignments_submit_assignment db assignment_id body cu)
     \<longleftrightarrow> \<not> allowed (u_role cu) (u_id cu) AssignmentsSubmitAssignment"
  by (simp add: assignments_submit_assignment_def forbidden_simps split: option.splits)

lemma gate_students_submit:
  "forbidden (students_submit_assignment db assignment_id body cu)
     \<longleftrightarrow> \<not> allowed (u_role cu) (u_id cu) StudentsSubmitAssignment"
  by (simp add: students_submit_assignment_def forbidden_simps split: option.splits)

lemma gate_assignments_get_submissions:
  "forbidden (assignments_get_assignment_submissions db assignment_id cu)
     \<longleftrightarrow> \<not> allowed (u_role cu) (u_id cu) AssignmentsGetAssignmentSubmissions"
  by (simp add: assignments_get_assignment_submissions_def forbidden_simps)

lemma gate_get_teacher_assignments:
  "forbidden (get_teacher_assignments db cu)
     \<longleftrightarrow> \<not> allowed (u_role cu) (u_id cu) GetTeacherAssignments"
  by (simp add: get_teacher_assignments_def forbidden_simps)

lemma gate_teachers_get_submissions:
  "find (\<lambda>a. a_id a = assignment_id) (assignments db) = Some a \<Longrightarrow>
   forbidden (teachers_get_assignment_submissions db assignment_id cu)
     \<longleftrightarrow> \<not> allowed (u_role cu) (u_id cu) (TeachersGetAssignmentSubmissions (a_created_by_id a))"
  by (auto simp: teachers_get_assignment_submissions_def forbidden_simps)

lemma gate_grade:
  "find (\<lambda>s. s_id s = submission_id) (assignment_submissions db) = Some s \<Longrightarrow>
   find (\<lambda>a. a_id a = s_assignment_id s) (assignments db) = Some a \<Longrightarrow>
   forbidden (grade_submission db submission_id grade_data cu)
     \<longleftrightarrow> \<not> allowed (u_role cu) (u_id cu) (GradeSubmission (a_created_by_id a))"
  by (auto simp: grade_submission_def forbidden_simps Let_def)

lemma gate_get_student_assignments:
  "forbidden (get_student_assignments db cu)
     \<longleftrightarrow> \<not> allowed (u_role cu) (u_id cu) GetStudentAssignments"
  by (simp add: get_student_assignments_def forbidden_simps)

lemma gate_get_student_submissions:
  "forbidden (get_student_submissions db cu)
     \<longleftrightarrow> \<not> allowed (u_role cu) (u_id cu) GetStudentSubmissions"
  by (simp add: get_student_submissions_def forbidden_simps)

lemma gate_send_message:
  "forbidden (send_message db message cu) \<longleftrightarrow> \<not> allowed (u_role cu) (u_id cu) SendMessage"
  by (simp add: send_message_def forbidden_simps)

lemma gate_get_messages:
  "forbidden (get_messages db message_type unread_only cu)
     \<longleftrightarrow> \<not> allowed (u_role cu) (u_id cu) GetMessages"
  by (simp add: get_messages_def forbidden_simps)

lemma gate_get_sent_messages:
  "forbidden (get_sent_messages db cu) \<longleftrightarrow> \<not> allowed (u_role cu) (u_id cu) GetSentMessages"
  by (simp add: get_sent_messages_def forbidden_simps)

lemma gate_get_unread_count:
  "forbidden (get_unread_count db cu) \<longleftrightarrow> \<not> allowed (u_role cu) (u_id cu) GetUnreadCount"
  by (simp add: get_unread_count_def forbidden_simps)

lemma mark_read_never_forbidden: "\<not> forbidden (mark_message_as_read db message_id cu)"
  by (simp add: mark_message_as_read_def forbidden_simps split: option.splits)

lemma gate_get_teachers:
  "forbidden (get_teachers db cu) \<longleftrightarrow> \<not> allowed (u_role cu) (u_id cu) GetTeachers"
  by (simp add: get_teachers_def forbidden_simps)

lemma gate_send_to_teacher:
  "forbidden (send_message_to_teacher db message cu)
     \<longleftrightarrow> \<not> allowed (u_role cu) (u_id cu) SendMessageToTeacher"
  by (simp add: send_message_to_teacher_def forbidden_simps)

text \<open>
  C1, as the code has it. On every route but seven, when the gate allows a caller of any
  role (a teacher, a student or a parent in particular), it allows every admin, whatever
  the admin's id: where a teacher must own the assignment, an admin need not. Five of
  the seven are the student-only routes (submitting an assignment on either route, the
  students' assignment list and submission list) and the route for students and parents
  to write to a teacher; on these the gate denies every admin. The other two are reading
  one message and marking it read, whose test is on the caller's id whatever the role.
\<close>

theorem admin_allowed_outside_student_routes:
  "(action \<notin> {AssignmentsSubmitAssignment, StudentsSubmitAssignment, GetStudentAssignments,
               GetStudentSubmissions, SendMessageToTeacher}
      \<and> \<not> message_party_action action
      \<and> allowed role uid action
    \<longrightarrow> allowed ''admin'' admin_uid action)
   \<and> (action \<in> {AssignmentsSubmitAssignment, StudentsSubmitAssignment, GetStudentAssignments,
                 GetStudentSubmissions, SendMessageToTeacher}
    \<longrightarrow> \<not> allowed ''admin'' admin_uid action \<and> allowed ''student'' uid action)"
  by (cases action) simp_all

theorem admin_allowed_outside_student_routes_witness:
  "allowed ''teacher'' 2 (GradeSubmission 2) \<and> allowed ''admin'' 1 (GradeSubmission 2)
   \<and> \<not> allowed ''teacher'' 7 (GradeSubmission 2)
   \<and> allowed ''teacher'' 2 (UpdateAssignment 2) \<and> allowed ''admin'' 1 (UpdateAssignment 2)
   \<and> allowed ''parent'' 3 SendMessage \<and> allowed ''admin'' 1 SendMessage
   \<and> \<not> allowed ''admin'' 1 AssignmentsSubmitAssignment
   \<and> allowed ''student'' 4 AssignmentsSubmitAssignment"
proof -
  have t: "allowed ''teacher'' 2 (GradeSubmission 2)" "\<not> allowed ''teacher'' 7 (GradeSubmission 2)"
    by simp_all
  have u: "allowed ''teacher'' 2 (UpdateAssignment 2)" by simp
  have p: "allowed ''parent'' 3 SendMessage" by simp
  from admin_allowed_outside_student_routes [of "GradeSubmission 2" "''teacher''" 2 1,
      THEN conjunct1, THEN mp] t
  have a: "allowed ''admin'' 1 (GradeSubmission 2)" by simp
  from admin_allowed_outside_student_routes [of "UpdateAssignment 2" "''teacher''" 2 1,
      THEN conjunct1, THEN mp] u
  have b: "allowed ''admin'' 1 (UpdateAssignment 2)" by simp
  from admin_allowed_outside_student_routes [of SendMessage "''parent''" 3 1,
      THEN conjunct1, THEN mp] p
  have c: "allowed ''admin'' 1 SendMessage" by simp
  from admin_allowed_outside_student_routes [of AssignmentsSubmitAssignment "''x''" 4 1,
      THEN conjunct2, THEN mp]
  have d: "\<not> allowed ''admin'' 1 AssignmentsSubmitAssignment
      \<and> allowed ''student'' 4 AssignmentsSubmitAssignment" by simp
  from t u p a b c d show ?thesis by simp
qed

text \<open>
  The claim as stated fails on the route for writing to a teacher and on the submit
  routes. The gate lets the seeded student and parent through to write to a teacher and
  denies the seeded admin, for whom the handler raises 403 (the student's call passes
  the role test and then raises \<^verbatim>\<open>AttributeError\<close>, not 403). The seeded student's submit is
  stored, and the same submit by the seeded admin raises 403.
\<close>

definition to_teacher :: message_create where
  "to_teacher = \<lparr>mc_subject = ''Question'', mc_content = ''About HW1'', mc_receiver_id = 2\<rparr>"

theorem admin_denied_counterexample:
  "allowed ''student'' 4 SendMessageToTeacher
   \<and> allowed ''parent'' 3 SendMessageToTeacher
   \<and> \<not> allowed ''admin'' 1 SendMessageToTeacher
   \<and> send_message_to_teacher seeded to_teacher admin_user
       = Inl (HTTPException 403 ''Only students and parents can send messages to teachers'')
   \<and> \<not> forbidden (send_message_to_teacher seeded to_teacher student_user)
   \<and> allowed ''student'' 4 StudentsSubmitAssignment
   \<and> \<not> allowed ''admin'' 1 StudentsSubmitAssignment
   \<and> students_submit_assignment with_hw1 1 sub_body student_user = Inr (sub1, with_sub)
   \<and> students_submit_assignment with_hw1 1 sub_body admin_user
       = Inl (HTTPException 403 ''Only students can submit assignments'')
   \<and> \<not> (\<forall>action role uid admin_uid. role \<in> set [''teacher'', ''student'', ''parent'']
           \<longrightarrow> allowed role uid action \<longrightarrow> allowed ''admin'' admin_uid action)"
proof -
  have denied: "send_message_to_teacher seeded to_teacher admin_user
      = Inl (HTTPException 403 ''Only students and parents can send messages to teachers'')"
    by (simp add: send_message_to_teacher_def admin_user_def)
  have passed: "\<not> forbidden (send_message_to_teacher seeded to_teacher student_user)"
    by (simp add: send_message_to_teacher_def student_user_def forbidden_simps)
  have refused: "students_submit_assignment with_hw1 1 sub_body admin_user
      = Inl (HTTPException 403 ''Only students can submit assignments'')"
    by (simp add: students_submit_assignment_def admin_user_def)
  have "\<not> (\<forall>action role uid admin_uid. role \<in> set [''teacher'', ''student'', ''parent'']
           \<longrightarrow> allowed role uid action \<longrightarrow> allowed ''admin'' admin_uid action)"
  proof
    assume "\<forall>action role uid admin_uid. role \<in> set [''teacher'', ''student'', ''parent'']
           \<longrightarrow> allowed role uid action \<longrightarrow> allowed ''admin'' admin_uid action"
    then have "''student'' \<in> set [''teacher'', ''student'', ''parent'']
           \<longrightarrow> allowed ''student'' 4 SendMessageToTeacher
           \<longrightarrow> allowed ''admin'' 1 SendMessageToTeacher"
      by blast
    then show False by simp
  qed
  with denied passed refused submit_sub1 show ?thesis by simp
qed

section \<open>Listing assignments as a student\<close>

text \<open>
  C6, as the code has it. On the general listing route, a student who supplies a
  non-empty class filter sees exactly the assignments whose class is the filter or
  \<^verbatim>\<open>all\<close>, and a non-empty subject filter is applied on top. A student who supplies no
  class filter (or an empty one) sees the assignments of every class, again under the
  subject filter. The students' own listing route takes no filter and returns every
  assignment.
\<close>

theorem student_listing:
  assumes "u_role current_user = ''student''"
  shows "(truthy class_name \<longrightarrow>
            get_assignments db class_name subject current_user
            = filter (\<lambda>a. (a_class_name a = the class_name \<or> a_class_name a = ''all'')
                          \<and> (truthy subject \<longrightarrow> a_subject a = the subject))
                (assignments db))
       \<and> (\<not> truthy class_name \<longrightarrow>
            get_assignments db class_name subject current_user
            = filter (\<lambda>a. truthy subject \<longrightarrow> a_subject a = the subject) (assignments db))
       \<and> get_student_assignments db current_user = Inr (assignments db)"
  using assms
  by (simp add: get_assignments_def get_student_assignments_def Let_def)

theorem student_listing_witness:
  "u_role student_user = ''student''
   \<and> get_assignments with_hw1 (Some ''10A'') None student_user = [hw1]
   \<and> get_assignments with_hw1 (Some ''10B'') None student_user = []
   \<and> get_assignments with_hw1 (Some ''10A'') (Some ''Art'') student_user = []
   \<and> get_assignments with_hw1 None None student_user = [hw1]
   \<and> get_student_assignments with_hw1 student_user = Inr [hw1]"
proof -
  have role: "u_role student_user = ''student''"
    by (simp add: student_user_def)
  note inst = student_listing [OF role, of _ with_hw1]
  have a: "get_assignments with_hw1 (Some ''10A'') None student_user = [hw1]"
    using inst [of "Some ''10A''" None, THEN conjunct1]
    by (simp add: truthy_def assignments_with_hw1 hw1_def)
  have b: "get_assignments with_hw1 (Some ''10B'') None student_user = []"
    using inst [of "Some ''10B''" None, THEN conjunct1]
    by (simp add: truthy_def assignments_with_hw1 hw1_def)
  have c: "get_assignments with_hw1 (Some ''10A'') (Some ''Art'') student_user = []"
    using inst [of "Some ''10A''" "Some ''Art''", THEN conjunct1]
    by (simp add: truthy_def assignments_with_hw1 hw1_def)
  have d: "get_assignments with_hw1 None None student_user = [hw1]"
    using inst [of None None, THEN conjunct2, THEN conjunct1]
    by (simp add: truthy_def assignments_with_hw1)
  have e: "get_student_assignments with_hw1 student_user = Inr [hw1]"
    using inst [of None None, THEN conjunct2, THEN conjunct2]
    by (simp add: assignments_with_hw1)
  from role a b c d e show ?thesis by (intro conjI)
qed

text \<open>
  The claim as stated fails on the students' own listing route, and on the general route
  without a class filter: the store holds one assignment, of class 10A, so none of class
  10B or \<^verbatim>\<open>all\<close>, and the student is shown it.
\<close>

theorem student_listing_counterexample:
  "filter (\<lambda>a. a_class_name a = ''10B'' \<or> a_class_name a = ''all'') (assignments with_hw1) = []
   \<and> get_student_assignments with_hw1 student_user = Inr [hw1]
   \<and> get_assignments with_hw1 None None student_user = [hw1]"
  by (simp add: get_student_assignments_def get_assignments_def truthy_def Let_def
      assignments_with_hw1 hw1_def student_user_def)

section \<open>Registration intake\<close>

definition conflict :: "error + 'a \<Rightarrow> bool" where
  \<comment> \<open>The handler raised \<^verbatim>\<open>HTTP_400_BAD_REQUEST\<close>, the status these handlers use for a
     duplicate or an already processed request.\<close>
  "conflict result =
     (case result of Inl (HTTPException status_code detail) \<Rightarrow> status_code = 400 | _ \<Rightarrow> False)"

lemma conflict_simps:
  "conflict (Inl (HTTPException c d)) = (c = 400)"
  "conflict (Inl AttributeError) = False"
  "conflict (Inr x) = False"
  by (simp_all add: conflict_def)

lemma find_not_None_iff: "(find P xs \<noteq> None) = (\<exists>x\<in>set xs. P x)"
  by (auto simp: find_None_iff)

text \<open>
  C7, as the code has it. The intake of \<^verbatim>\<open>auth.py\<close> raises the conflict error if and only
  if a user has the candidate's username or email, or a pending request has the
  candidate's username or email; otherwise it stores a new request with status
  \<^verbatim>\<open>pending\<close>. The intake of \<^verbatim>\<open>registration_requests.py\<close> raises the conflict error if
  and only if some request, of any status, has the candidate's email; it consults neither
  the users nor the username, and otherwise stores a new request with status
  \<^verbatim>\<open>pending\<close>.
\<close>

theorem intake_conflict:
  "(conflict (auth_create_registration_request db request)
      \<longleftrightarrow> (\<exists>u\<in>set (users db).
             u_username u = rc_username request \<or> u_email u = rc_email request)
          \<or> (\<exists>r\<in>set (registration_requests db).
               (r_username r = rc_username request \<or> r_email r = rc_email request)
               \<and> r_status r = ''pending''))
   \<and> (\<not> conflict (auth_create_registration_request db request)
      \<longrightarrow> auth_create_registration_request db request
          = Inr (new_request db request,
                 db\<lparr>registration_requests :=
                      registration_requests db @ [new_request db request]\<rparr>))
   \<and> (conflict (rr_create_registration_request db request)
      \<longleftrightarrow> (\<exists>r\<in>set (registration_requests db). r_email r = rc_email request))
   \<and> (\<not> conflict (rr_create_registration_request db request)
      \<longrightarrow> rr_create_registration_request db request
          = Inr (new_request db request,
                 db\<lparr>registration_requests :=
                      registration_requests db @ [new_request db request]\<rparr>))
   \<and> r_status (new_request db request) = ''pending''"
proof -
  have auth: "auth_create_registration_request db request =
     (if \<exists>u\<in>set (users db). u_username u = rc_username request \<or> u_email u = rc_email request
      then Inl (HTTPException 400 ''Username or email already exists'')
      else if \<exists>r\<in>set (registration_requests db).
                (r_username r = rc_username request \<or> r_email r = rc_email request)
                \<and> r_status r = ''pending''
      then Inl (HTTPException 400 ''Registration request already pending'')
      else Inr (new_request db request,
                db\<lparr>registration_requests := registration_requests db @ [new_request db request]\<rparr>))"
    unfolding auth_create_registration_request_def find_not_None_iff by (rule refl)
  have rr: "rr_create_registration_request db request =
     (if \<exists>r\<in>set (registration_requests db). r_email r = rc_email request
      then Inl (HTTPException 400 ''Registration request with this email already exists'')
      else Inr (new_request db request,
                db\<lparr>registration_requests := registration_requests db @ [new_request db request]\<rparr>))"
    unfolding rr_create_registration_request_def find_not_None_iff by (rule refl)
  have pending: "r_status (new_request db request) = ''pending''"
    by (simp add: new_request_def)
  show ?thesis
    unfolding auth rr
    by (simp add: conflict_simps pending)
qed

definition candidate :: registration_request_create where
  "candidate = \<lparr>rc_username = ''john'', rc_email = ''john@a.com'', rc_name = ''John A'',
     rc_role = ''student''\<rparr>"

definition request1 :: registration_request where
  "request1 = \<lparr>r_id = 1, r_username = ''john'', r_email = ''john@a.com'', r_name = ''John A'',
     r_role = ''student'', r_status = ''pending'', r_processed_at = None\<rparr>"

definition with_request :: store where
  "with_request = seeded\<lparr>registration_requests := [request1]\<rparr>"

lemma new_request_seeded: "new_request seeded candidate = request1"
  by (simp add: new_request_def candidate_def request1_def seeded_eq next_id_def)

lemma seeded_with_request:
  "seeded\<lparr>registration_requests := registration_requests seeded @ [request1]\<rparr> = with_request"
  by (simp add: with_request_def seeded_eq)

theorem intake_conflict_witness:
  "auth_create_registration_request seeded candidate = Inr (request1, with_request)
   \<and> conflict (auth_create_registration_request with_request candidate)
   \<and> rr_create_registration_request seeded candidate = Inr (request1, with_request)
   \<and> conflict (rr_create_registration_request with_request candidate)
   \<and> r_status request1 = ''pending''"
proof -
  note at_seeded = intake_conflict [of seeded candidate]
  note at_request = intake_conflict [of with_request candidate]
  have no_user: "\<not> (\<exists>u\<in>set (users seeded).
             u_username u = rc_username candidate \<or> u_email u = rc_email candidate)"
    by (simp add: seeded_eq candidate_def admin_user_def teacher_user_def parent_user_def
        student_user_def)
  have no_request: "registration_requests seeded = []"
    by (simp add: seeded_eq)
  have pending: "\<exists>r\<in>set (registration_requests with_request).
               (r_username r = rc_username candidate \<or> r_email r = rc_email candidate)
               \<and> r_status r = ''pending''"
    by (simp add: with_request_def request1_def candidate_def)
  have same_email: "\<exists>r\<in>set (registration_requests with_request). r_email r = rc_email candidate"
    by (simp add: with_request_def request1_def candidate_def)
  have "\<not> conflict (auth_create_registration_request seeded candidate)"
    using at_seeded [THEN conjunct1] no_user no_request by simp
  from at_seeded [THEN conjunct2, THEN conjunct1, THEN mp, OF this]
  have a: "auth_create_registration_request seeded candidate = Inr (request1, with_request)"
    by (simp only: new_request_seeded seeded_with_request)
  have b: "conflict (auth_create_registration_request with_request candidate)"
    using at_request [THEN conjunct1] pending by blast
  have "\<not> conflict (rr_create_registration_request seeded candidate)"
    using at_seeded [THEN conjunct2, THEN conjunct2, THEN conjunct1] no_request by simp
  from at_seeded [THEN conjunct2, THEN conjunct2, THEN conjunct2, THEN conjunct1, THEN mp, OF this]
  have c: "rr_create_registration_request seeded candidate = Inr (request1, with_request)"
    by (simp only: new_request_seeded seeded_with_request)
  have d: "conflict (rr_create_registration_request with_request candidate)"
    using at_request [THEN conjunct2, THEN conjunct2, THEN conjunct1] same_email by blast
  have e: "r_status request1 = ''pending''"
    by (simp add: request1_def)
  from a b c d e show ?thesis by (intro conjI)
qed

text \<open>
  The claim as stated fails on the intake of \<^verbatim>\<open>registration_requests.py\<close>, in both
  directions. A candidate with the username of the seeded admin (and a new email) is
  stored, not refused. A candidate whose email is that of a rejected request, with no
  such user and no pending request, is refused.
\<close>

definition impostor :: registration_request_create where
  "impostor = \<lparr>rc_username = ''admin'', rc_email = ''mallory@a.com'', rc_name = ''Mallory'',
     rc_role = ''admin''\<rparr>"

definition with_rejected :: store where
  "with_rejected = seeded\<lparr>registration_requests := [request1\<lparr>r_status := ''rejected''\<rparr>]\<rparr>"

lemma reject_request1:
  "reject_registration_request with_request 1 admin_user
   = Inr (''Registration request rejected'', with_rejected)"
  by (simp add: reject_registration_request_def with_request_def with_rejected_def request1_def
      admin_user_def)

theorem intake_every_endpoint_counterexample:
  "find (\<lambda>u. u_username u = rc_username impostor) (users seeded) = Some admin_user
   \<and> (\<exists>row db'. rr_create_registration_request seeded impostor = Inr (row, db')
         \<and> r_username row = ''admin'' \<and> r_status row = ''pending'')
   \<and> \<not> conflict (rr_create_registration_request seeded impostor)
   \<and> conflict (auth_create_registration_request seeded impostor)
   \<and> reject_registration_request with_request 1 admin_user
       = Inr (''Registration request rejected'', with_rejected)
   \<and> conflict (rr_create_registration_request with_rejected candidate)
   \<and> \<not> conflict (auth_create_registration_request with_rejected candidate)"
proof -
  have a: "find (\<lambda>u. u_username u = rc_username impostor) (users seeded) = Some admin_user"
    by (simp add: seeded_eq impostor_def admin_user_def)
  have b: "rr_create_registration_request seeded impostor
      = Inr (new_request seeded impostor,
             seeded\<lparr>registration_requests := [new_request seeded impostor]\<rparr>)"
    by (simp add: rr_create_registration_request_def seeded_eq)
  have c: "r_username (new_request seeded impostor) = ''admin''
      \<and> r_status (new_request seeded impostor) = ''pending''"
    by (simp add: new_request_def impostor_def)
  have d: "conflict (auth_create_registration_request seeded impostor)"
    by (simp add: auth_create_registration_request_def a conflict_simps impostor_def seeded_eq
        admin_user_def)
  have e: "conflict (rr_create_registration_request with_rejected candidate)"
    by (simp add: rr_create_registration_request_def with_rejected_def request1_def
        candidate_def conflict_simps)
  have f: "\<not> conflict (auth_create_registration_request with_rejected candidate)"
    by (simp add: auth_create_registration_request_def with_rejected_def request1_def
        candidate_def conflict_simps seeded_eq admin_user_def teacher_user_def parent_user_def
        student_user_def)
  from a b c d e f reject_request1 show ?thesis
    by (simp add: conflict_simps)
qed

section \<open>Approval and the derived username\<close>

lemma unique_username_taken:
  "username \<in> usernames us \<Longrightarrow>
     unique_username us base username counter
     = unique_username us base (base @ str_nat counter) (counter + 1)"
  by (subst unique_username.simps) (simp only: find_username_iff if_True)

lemma unique_username_free:
  "username \<notin> usernames us \<Longrightarrow> unique_username us base username counter = username"
  by (subst unique_username.simps) (simp only: find_username_iff if_False)

lemma unique_username_spec:
  "unique_username us base username counter \<notin> usernames us
   \<and> (username \<notin> usernames us \<longrightarrow> unique_username us base username counter = username)
   \<and> (username \<in> usernames us \<longrightarrow>
        (\<exists>k\<ge>counter. unique_username us base username counter = base @ str_nat k
           \<and> (\<forall>j. counter \<le> j \<and> j < k \<longrightarrow> base @ str_nat j \<in> usernames us)))"
proof (induction us base username counter rule: unique_username.induct)
  case (1 us base username counter)
  show ?case
  proof (cases "username \<in> usernames us")
    case False
    then have "unique_username us base username counter = username"
      by (rule unique_username_free)
    with False show ?thesis by simp
  next
    case True
    then have taken: "find (\<lambda>u. u_username u = username) us \<noteq> None"
      by (simp only: find_username_iff)
    have step: "unique_username us base username counter
        = unique_username us base (base @ str_nat counter) (counter + 1)"
      using True by (rule unique_username_taken)
    note IH = "1.IH" [OF taken]
    show ?thesis
    proof (cases "base @ str_nat counter \<in> usernames us")
      case False
      with IH have "unique_username us base (base @ str_nat counter) (counter + 1)
          = base @ str_nat counter"
        by blast
      with step False True show ?thesis
        by auto
    next
      case next_taken: True
      with IH obtain k where k: "counter + 1 \<le> k"
        "unique_username us base (base @ str_nat counter) (counter + 1) = base @ str_nat k"
        "\<forall>j. counter + 1 \<le> j \<and> j < k \<longrightarrow> base @ str_nat j \<in> usernames us"
        by blast
      have "\<forall>j. counter \<le> j \<and> j < k \<longrightarrow> base @ str_nat j \<in> usernames us"
      proof (intro allI impI)
        fix j assume "counter \<le> j \<and> j < k"
        then consider "j = counter" | "counter + 1 \<le> j \<and> j < k" by linarith
        then show "base @ str_nat j \<in> usernames us"
          using next_taken k(3) by cases auto
      qed
      moreover from IH have "unique_username us base (base @ str_nat counter) (counter + 1)
          \<notin> usernames us" by blast
      ultimately show ?thesis
        using step True k(1,2) by (auto intro!: exI [of _ k])
    qed
  qed
qed

lemma approve_raises:
  assumes "find (\<lambda>r. r_id r = request_id) (registration_requests db) = Some request"
    and "r_status request = ''pending''"
    and "u_role current_user = ''admin''"
  shows "approve_registration_request db request_id current_user = Inl AttributeError"
  using assms by (simp add: approve_registration_request_def Let_def)

lemma approve_stores_nothing: "isl (approve_registration_request db request_id current_user)"
  by (simp add: approve_registration_request_def Let_def split: option.splits)

lemma process_approves_with_own_username:
  assumes "find (\<lambda>r. r_id r = request_id) (registration_requests db) = Some request"
    and "r_status request = ''pending''"
    and "u_role current_user = ''admin''"
    and "\<not> user_taken db (r_username request) (r_email request)"
  shows "\<exists>res db' new_user.
           process_registration_request get_password_hash now db request_id ''approved''
             current_user = Inr (res, db')
         \<and> users db' = users db @ [new_user] \<and> u_username new_user = r_username request"
  using assms by (simp add: process_registration_request_def Let_def)

lemma process_raises_when_taken:
  assumes "find (\<lambda>r. r_id r = request_id) (registration_requests db) = Some request"
    and "r_status request = ''pending''"
    and "u_role current_user = ''admin''"
    and "user_taken db (r_username request) (r_email request)"
  shows "process_registration_request get_password_hash now db request_id ''approved''
           current_user = Inl IntegrityError"
  using assms by (simp add: process_registration_request_def Let_def)

text \<open>
  The scenario continues: two candidates, John A and John B, ask for an account on the
  intake of \<^verbatim>\<open>auth.py\<close>; both emails have the local part \<^verbatim>\<open>john\<close>. John A, who asked for
  the username \<^verbatim>\<open>john\<close>, is approved through \<^verbatim>\<open>auth.py\<close> and becomes the user \<^verbatim>\<open>john\<close>.
  Then the admin approves John B through \<^verbatim>\<open>registration_requests.py\<close>.
\<close>

definition candidate2 :: registration_request_create where
  "candidate2 = \<lparr>rc_username = ''johnny'', rc_email = ''john@b.com'', rc_name = ''John B'',
     rc_role = ''student''\<rparr>"

definition request2 :: registration_request where
  "request2 = \<lparr>r_id = 2, r_username = ''johnny'', r_email = ''john@b.com'', r_name = ''John B'',
     r_role = ''student'', r_status = ''pending'', r_processed_at = None\<rparr>"

definition with_two :: store where
  "with_two = seeded\<lparr>registration_requests := [request1, request2]\<rparr>"

lemma create_request1:
  "auth_create_registration_request seeded candidate = Inr (request1, with_request)"
  by (simp add: auth_create_registration_request_def new_request_seeded seeded_with_request)
     (simp add: seeded_eq candidate_def admin_user_def teacher_user_def parent_user_def
       student_user_def)

lemma create_request2:
  "auth_create_registration_request with_request candidate2 = Inr (request2, with_two)"
  by (simp add: auth_create_registration_request_def new_request_def with_request_def
      with_two_def request1_def request2_def candidate2_def seeded_eq next_id_def
      admin_user_def teacher_user_def parent_user_def student_user_def)

lemma reachable_with_two: "reachable with_two"
  by (rule r_auth_create [OF r_auth_create [OF reachable_seeded create_request1] create_request2])

lemma usernames_seeded:
  "usernames (users seeded) = {''admin'', ''teacher1'', ''parent1'', ''student1''}"
  by (simp add: usernames_def seeded_eq admin_user_def teacher_user_def parent_user_def
      student_user_def)

lemma str_nat_1: "str_nat 1 = ''1''"
proof -
  have "(of_char (CHR ''1'') :: nat) = 49"
    by simp
  moreover have "(char_of (of_char (CHR ''1'') :: nat) :: char) = CHR ''1''"
    by (rule char_of_char)
  ultimately have "(char_of (49::nat) :: char) = CHR ''1''"
    by (simp only:)
  then show ?thesis
    by (simp add: str_nat_small)
qed

lemma local_part_john: "local_part ''john@a.com'' = ''john''" "local_part ''john@b.com'' = ''john''"
  by (simp_all add: local_part_def)

definition john_a :: user where
  "john_a = \<lparr>u_id = 5, u_username = ''john'', u_email = ''john@a.com'',
     u_password_hash = demo_hash ''john123'', u_name = ''John A'', u_role = ''student''\<rparr>"

definition after_first :: store where
  "after_first = seeded\<lparr>users := users seeded @ [john_a],
     registration_requests :=
       [request1\<lparr>r_status := ''approved'', r_processed_at := Some 100\<rparr>, request2]\<rparr>"

lemma request1_found:
  "find (\<lambda>r. r_id r = 1) (registration_requests with_two) = Some request1"
  by (simp add: with_two_def request1_def)

lemma request2_found:
  "find (\<lambda>r. r_id r = 2) (registration_requests after_first) = Some request2"
  by (simp add: after_first_def request1_def request2_def)

lemma admin_role: "u_role admin_user = ''admin''"
  by (simp add: admin_user_def)

lemma john_is_free: "unique_username (users with_two) ''john'' ''john'' 1 = ''john''"
  by (rule unique_username_free) (simp add: with_two_def usernames_seeded)

lemma process_first:
  "process_registration_request demo_hash 100 with_two 1 ''approved'' admin_user
   = Inr (request1\<lparr>r_status := ''approved'', r_processed_at := Some 100\<rparr>, after_first)"
  by (simp add: process_registration_request_def admin_role Let_def user_taken_def with_two_def
      after_first_def john_a_def request1_def request2_def seeded_eq next_id_def admin_user_def
      teacher_user_def parent_user_def student_user_def)

lemma reachable_after_first: "reachable after_first"
  by (rule r_process [OF reachable_with_two process_first])

lemma usernames_after_first:
  "usernames (users after_first) = {''admin'', ''teacher1'', ''parent1'', ''student1'', ''john''}"
  by (auto simp: usernames_def after_first_def seeded_eq admin_user_def teacher_user_def
      parent_user_def student_user_def john_a_def)

lemma john1_is_next: "unique_username (users after_first) ''john'' ''john'' 1 = ''john1''"
proof -
  have "unique_username (users after_first) ''john'' ''john'' 1
      = unique_username (users after_first) ''john'' (''john'' @ str_nat 1) (1 + 1)"
    by (rule unique_username_taken) (simp add: usernames_after_first)
  also have "\<dots> = ''john'' @ str_nat 1"
    by (rule unique_username_free) (simp only: str_nat_1 usernames_after_first, simp)
  finally show ?thesis by (simp only: str_nat_1, simp)
qed

text \<open>
  C4. Approving a registration request creates a user whose username no existing user
  has: the local part of the request's email, followed by the least counter from 1 up
  that makes it free when the local part is taken. The loop of
  \<^verbatim>\<open>approve_registration_request\<close> computes this name (\<open>unique_username_spec\<close>), and the
  handler then breaks the claim on every pending request: it builds the user from
  \<^verbatim>\<open>request.first_name\<close> and \<^verbatim>\<open>request.last_name\<close>, which the request table does not
  declare, so the approval raises \<^verbatim>\<open>AttributeError\<close> before anything is stored and no
  user is created. Here John B's approval has found the free name \<^verbatim>\<open>john1\<close> (\<^verbatim>\<open>john\<close> is
  taken) when it raises; John A's approval on the same route, from the store where
  \<^verbatim>\<open>john\<close> is still free, raises as well.
\<close>

theorem approve_raises_after_deriving_username:
  "reachable after_first
   \<and> find (\<lambda>r. r_id r = 2) (registration_requests after_first) = Some request2
   \<and> r_status request2 = ''pending'' \<and> u_role admin_user = ''admin''
   \<and> local_part (r_email request2) = ''john''
   \<and> ''john'' \<in> usernames (users after_first)
   \<and> unique_username (users after_first) ''john'' ''john'' 1 = ''john1''
   \<and> ''john1'' \<notin> usernames (users after_first)
   \<and> approve_registration_request after_first 2 admin_user = Inl AttributeError
   \<and> reachable with_two
   \<and> find (\<lambda>r. r_id r = 1) (registration_requests with_two) = Some request1
   \<and> r_status request1 = ''pending''
   \<and> unique_username (users with_two) ''john'' ''john'' 1 = ''john''
   \<and> approve_registration_request with_two 1 admin_user = Inl AttributeError"
proof -
  have pending2: "r_status request2 = ''pending''"
    by (simp add: request2_def)
  have pending1: "r_status request1 = ''pending''"
    by (simp add: request1_def)
  have base: "local_part (r_email request2) = ''john''"
    by (simp add: request2_def local_part_john)
  have taken: "''john'' \<in> usernames (users after_first)"
    by (simp add: usernames_after_first)
  have free: "''john1'' \<notin> usernames (users after_first)"
    by (simp add: usernames_after_first)
  from reachable_after_first request2_found pending2 admin_role base taken john1_is_next free
    approve_raises [OF request2_found pending2 admin_role]
    reachable_with_two request1_found pending1 john_is_free
    approve_raises [OF request1_found pending1 admin_role]
  show ?thesis by (intro conjI)
qed

section \<open>Reviewing a registration request\<close>

lemma review_refused_when_processed:
  assumes "find (\<lambda>r. r_id r = request_id) (registration_requests db) = Some request"
    and "r_status request \<noteq> ''pending''"
    and "u_role current_user = ''admin''"
  shows "process_registration_request get_password_hash now db request_id status current_user
         = Inl (HTTPException 400 ''Request has already been processed'')"
    and "approve_registration_request db request_id current_user
         = Inl (HTTPException 400 ''Request has already been processed'')"
    and "reject_registration_request db request_id current_user
         = Inl (HTTPException 400 ''Request has already been processed'')"
  using assms
  by (simp_all add: process_registration_request_def approve_registration_request_def
      reject_registration_request_def)

lemma review_commits_nothing_when_processed:
  assumes "find (\<lambda>r. r_id r = request_id) (registration_requests db) = Some request"
    and "r_status request \<noteq> ''pending''"
  shows "isl (process_registration_request get_password_hash now db request_id status current_user)"
    and "isl (approve_registration_request db request_id current_user)"
    and "isl (reject_registration_request db request_id current_user)"
  using assms
  by (simp_all add: process_registration_request_def approve_registration_request_def
      reject_registration_request_def)

lemma process_marks_request:
  assumes found: "find (\<lambda>r. r_id r = request_id) (registration_requests db) = Some request"
    and "r_status request = ''pending''"
    and "u_role current_user = ''admin''"
    and "\<not> (status = ''approved'' \<and> user_taken db (r_username request) (r_email request))"
  shows "\<exists>db'. process_registration_request get_password_hash now db request_id status current_user
           = Inr (request\<lparr>r_status := status, r_processed_at := Some now\<rparr>, db')
         \<and> find (\<lambda>r. r_id r = request_id) (registration_requests db')
           = Some (request\<lparr>r_status := status, r_processed_at := Some now\<rparr>)"
proof -
  from found have key: "r_id (request\<lparr>r_status := status, r_processed_at := Some now\<rparr>) = request_id"
    by (auto dest: find_SomeD)
  note find_update_first_same [OF found, of "request\<lparr>r_status := status, r_processed_at := Some now\<rparr>", OF key]
  with assms show ?thesis
    by (simp add: process_registration_request_def Let_def)
qed

lemma reject_marks_request:
  assumes found: "find (\<lambda>r. r_id r = request_id) (registration_requests db) = Some request"
    and "r_status request = ''pending''"
    and "u_role current_user = ''admin''"
  shows "\<exists>res db'. reject_registration_request db request_id current_user = Inr (res, db')
         \<and> find (\<lambda>r. r_id r = request_id) (registration_requests db')
           = Some (request\<lparr>r_status := ''rejected''\<rparr>)"
proof -
  from found have key: "r_id (request\<lparr>r_status := ''rejected''\<rparr>) = request_id"
    by (auto dest: find_SomeD)
  note find_update_first [OF found, of "\<lambda>r. r\<lparr>r_status := ''rejected''\<rparr>", OF key]
  with assms show ?thesis
    by (simp add: reject_registration_request_def)
qed

text \<open>
  What holds of the three review handlers: a request whose status is not \<^verbatim>\<open>pending\<close> is
  never changed by them (they raise, and for an admin the error is the conflict
  \<^verbatim>\<open>Request has already been processed\<close>); and a first review by an admin that approves or
  rejects a pending request through \<^verbatim>\<open>process_registration_request\<close> (when its commit
  does not raise) or rejects it through \<^verbatim>\<open>reject_registration_request\<close> succeeds and
  leaves the request with that status, so that every later review of it is refused.
  A first review through \<^verbatim>\<open>approve_registration_request\<close> never succeeds
  (\<open>approve_raises\<close>).
\<close>

lemma review_then_conflict:
  assumes found: "find (\<lambda>r. r_id r = request_id) (registration_requests db) = Some request"
    and pending: "r_status request = ''pending''"
    and admin: "u_role current_user = ''admin''"
    and decision: "status \<noteq> ''pending''"
    and commits: "\<not> (status = ''approved'' \<and> user_taken db (r_username request) (r_email request))"
    and first: "first = process_registration_request get_password_hash now db request_id status
                          current_user
        \<or> first = map_sum id (\<lambda>(res, db'). (request\<lparr>r_status := ''rejected''\<rparr>, db'))
                    (reject_registration_request db request_id current_user)"
    and admin2: "u_role current_user2 = ''admin''"
  shows "\<exists>res db'. first = Inr (res, db')
         \<and> process_registration_request get_password_hash2 now2 db' request_id status2 current_user2
           = Inl (HTTPException 400 ''Request has already been processed'')
         \<and> approve_registration_request db' request_id current_user2
           = Inl (HTTPException 400 ''Request has already been processed'')
         \<and> reject_registration_request db' request_id current_user2
           = Inl (HTTPException 400 ''Request has already been processed'')"
proof -
  have refused: "\<And>db' request'. find (\<lambda>r. r_id r = request_id) (registration_requests db')
        = Some request' \<Longrightarrow> r_status request' \<noteq> ''pending'' \<Longrightarrow>
      process_registration_request get_password_hash2 now2 db' request_id status2 current_user2
        = Inl (HTTPException 400 ''Request has already been processed'')
      \<and> approve_registration_request db' request_id current_user2
        = Inl (HTTPException 400 ''Request has already been processed'')
      \<and> reject_registration_request db' request_id current_user2
        = Inl (HTTPException 400 ''Request has already been processed'')"
    using review_refused_when_processed [OF _ _ admin2] by blast
  from first show ?thesis
  proof (elim disjE)
    assume f: "first = process_registration_request get_password_hash now db request_id status
        current_user"
    from process_marks_request [OF found pending admin commits, of get_password_hash now]
    obtain db' where "first = Inr (request\<lparr>r_status := status, r_processed_at := Some now\<rparr>, db')"
      and "find (\<lambda>r. r_id r = request_id) (registration_requests db')
           = Some (request\<lparr>r_status := status, r_processed_at := Some now\<rparr>)"
      using f by auto
    with refused [of db' "request\<lparr>r_status := status, r_processed_at := Some now\<rparr>"] decision
    show ?thesis by auto
  next
    assume f: "first = map_sum id (\<lambda>(res, db'). (request\<lparr>r_status := ''rejected''\<rparr>, db'))
        (reject_registration_request db request_id current_user)"
    from reject_marks_request [OF found pending admin]
    obtain res db' where "reject_registration_request db request_id current_user = Inr (res, db')"
      and "find (\<lambda>r. r_id r = request_id) (registration_requests db')
           = Some (request\<lparr>r_status := ''rejected''\<rparr>)"
      by auto
    with refused [of db' "request\<lparr>r_status := ''rejected''\<rparr>"] f
    show ?thesis by auto
  qed
qed


text \<open>
  The scenario continues: the admin reviews John A's pending request through \<^verbatim>\<open>auth.py\<close>
  and writes the status \<^verbatim>\<open>pending\<close>, a string the request body accepts.
\<close>

definition with_reviewed :: store where
  "with_reviewed = seeded\<lparr>registration_requests := [request1\<lparr>r_processed_at := Some 100\<rparr>]\<rparr>"

definition with_reviewed_twice :: store where
  "with_reviewed_twice = seeded\<lparr>registration_requests :=
     [request1\<lparr>r_status := ''rejected'', r_processed_at := Some 200\<rparr>]\<rparr>"

text \<open>
  C3. Once a registration request is approved or rejected no review changes it again: a
  first review of a pending request succeeds and a second review of the same request
  fails with the conflict \<^verbatim>\<open>Request has already been processed\<close>. No handler changes a
  request that is approved or rejected (\<open>review_commits_nothing_when_processed\<close>), and a
  first review that approves or rejects and is committed is followed by the conflict
  (\<open>review_then_conflict\<close>). \<^verbatim>\<open>process_registration_request\<close> breaks the claim when the
  first review carries the status \<^verbatim>\<open>pending\<close>: the review succeeds and stamps
  \<^verbatim>\<open>processed_at\<close>, the request stays pending, and the second review succeeds as well.
\<close>

theorem review_pending_twice:
  "find (\<lambda>r. r_id r = 1) (registration_requests with_request) = Some request1
   \<and> r_status request1 = ''pending''
   \<and> process_registration_request demo_hash 100 with_request 1 ''pending'' admin_user
       = Inr (request1\<lparr>r_processed_at := Some 100\<rparr>, with_reviewed)
   \<and> r_processed_at (request1\<lparr>r_processed_at := Some 100\<rparr>) = Some 100
   \<and> process_registration_request demo_hash 200 with_reviewed 1 ''rejected'' admin_user
       = Inr (request1\<lparr>r_status := ''rejected'', r_processed_at := Some 200\<rparr>,
              with_reviewed_twice)
   \<and> \<not> conflict (process_registration_request demo_hash 200 with_reviewed 1 ''rejected''
                    admin_user)"
proof -
  have found: "find (\<lambda>r. r_id r = 1) (registration_requests with_request) = Some request1"
    by (simp add: with_request_def request1_def)
  have pending: "r_status request1 = ''pending''"
    by (simp add: request1_def)
  have first: "process_registration_request demo_hash 100 with_request 1 ''pending'' admin_user
      = Inr (request1\<lparr>r_processed_at := Some 100\<rparr>, with_reviewed)"
    by (simp add: process_registration_request_def admin_role Let_def with_request_def
        with_reviewed_def request1_def)
  have second: "process_registration_request demo_hash 200 with_reviewed 1 ''rejected'' admin_user
      = Inr (request1\<lparr>r_status := ''rejected'', r_processed_at := Some 200\<rparr>,
             with_reviewed_twice)"
    by (simp add: process_registration_request_def admin_role Let_def with_reviewed_def
        with_reviewed_twice_def request1_def)
  have "\<not> conflict (process_registration_request demo_hash 200 with_reviewed 1 ''rejected''
      admin_user)"
    by (simp only: second conflict_simps not_False_eq_True)
  with found pending first second show ?thesis
    by simp
qed

end
